theory Spec2Isabelle
  imports Main "HOL-Library.AList" "HOL-Library.Log_Nat"
begin

section \<open>Python numbers\<close>

text \<open>
  The arguments of \<^verbatim>\<open>calculate_score\<close> are Python numbers (\<^verbatim>\<open>int\<close> or
  \<^verbatim>\<open>float\<close>). Every finite one denotes a rational; a float can also be positive or
  negative infinity, or not-a-number. Python compares an int with a float by value, so
  comparison on this type is exact. The two zeros of a float compare equal and are one
  value here.
\<close>

datatype pynum = Fin rat | PInf | NInf | NaN

text \<open>\<^verbatim>\<open>a < b\<close>: false as soon as one side is not-a-number.\<close>

fun num_lt :: "pynum \<Rightarrow> pynum \<Rightarrow> bool" where
  "num_lt NaN b = False"
| "num_lt a NaN = False"
| "num_lt (Fin a) (Fin b) = (a < b)"
| "num_lt (Fin a) PInf = True"
| "num_lt (Fin a) NInf = False"
| "num_lt PInf b = False"
| "num_lt NInf NInf = False"
| "num_lt NInf b = True"

text \<open>\<^verbatim>\<open>a > b\<close> is \<^verbatim>\<open>b < a\<close>.\<close>

definition num_gt :: "pynum \<Rightarrow> pynum \<Rightarrow> bool" where
  "num_gt a b = num_lt b a"

text \<open>\<^verbatim>\<open>a <= b\<close>: false as soon as one side is not-a-number.\<close>

fun num_le :: "pynum \<Rightarrow> pynum \<Rightarrow> bool" where
  "num_le NaN b = False"
| "num_le a NaN = False"
| "num_le (Fin a) (Fin b) = (a \<le> b)"
| "num_le (Fin a) PInf = True"
| "num_le (Fin a) NInf = False"
| "num_le PInf PInf = True"
| "num_le PInf b = False"
| "num_le NInf b = True"

text \<open>\<^verbatim>\<open>a == b\<close>: not-a-number is not equal to anything, itself included.\<close>

definition num_eq :: "pynum \<Rightarrow> pynum \<Rightarrow> bool" where
  "num_eq a b = (a \<noteq> NaN \<and> b \<noteq> NaN \<and> a = b)"

text \<open>A Python \<^verbatim>\<open>int\<close> literal.\<close>

definition py_int :: "int \<Rightarrow> pynum" where
  "py_int i = Fin (of_int i)"

subsection \<open>Double precision\<close>

text \<open>
  A \<^verbatim>\<open>float\<close> is an IEEE 754 binary64 number: a decimal literal denotes the double
  nearest to it, and \<^verbatim>\<open>+\<close> and \<^verbatim>\<open>-\<close> return the double nearest to the exact
  result (ties to the even significand). A double has a 53-bit significand; the least
  exponent of its last bit is -1074, and a rounded magnitude of 2^1024 or more is an
  infinity.
\<close>

definition pow2 :: "int \<Rightarrow> rat" where
  "pow2 e = 2 powi e"

text \<open>The floor of the binary logarithm of a positive rational.\<close>

definition ilog2 :: "rat \<Rightarrow> int" where
  "ilog2 x =
     (let (a, b) = quotient_of x;
          e = bitlen a - bitlen b
      in if pow2 e \<le> x then e else e - 1)"

definition round_half_even :: "rat \<Rightarrow> int" where
  "round_half_even x =
     (let f = \<lfloor>x\<rfloor>;
          d = x - of_int f
      in if d < 1 / 2 then f
         else if 1 / 2 < d then f + 1
         else if even f then f else f + 1)"

definition round_double :: "rat \<Rightarrow> pynum" where
  "round_double x =
     (if x = 0 then Fin 0
      else
        let e = max (ilog2 \<bar>x\<bar> - 52) (- 1074);
            m = round_half_even (x / pow2 e);
            y = of_int m * pow2 e
        in if 2 ^ 1024 \<le> \<bar>y\<bar> then (if 0 < x then PInf else NInf) else Fin y)"

text \<open>A decimal \<^verbatim>\<open>float\<close> literal, given as the rational it is written as.\<close>

definition float_lit :: "rat \<Rightarrow> pynum" where
  "float_lit q = round_double q"

text \<open>\<^verbatim>\<open>a + b\<close> and \<^verbatim>\<open>a - b\<close> on floats.\<close>

fun num_add :: "pynum \<Rightarrow> pynum \<Rightarrow> pynum" where
  "num_add NaN b = NaN"
| "num_add a NaN = NaN"
| "num_add (Fin a) (Fin b) = round_double (a + b)"
| "num_add (Fin a) b = b"
| "num_add PInf NInf = NaN"
| "num_add NInf PInf = NaN"
| "num_add a b = a"

fun num_neg :: "pynum \<Rightarrow> pynum" where
  "num_neg (Fin a) = Fin (- a)"
| "num_neg PInf = NInf"
| "num_neg NInf = PInf"
| "num_neg NaN = NaN"

definition num_sub :: "pynum \<Rightarrow> pynum \<Rightarrow> pynum" where
  "num_sub a b = num_add a (num_neg b)"


section \<open>Errors\<close>

datatype component = MELD | SAPS_II | AGE | PLATELETS | HCC | CVVHD | VHF

text \<open>
  The text of an exception is kept as its parts. \<open>Must_be_between c lo hi v\<close> is the
  message \<^verbatim>\<open>"<variable c> must be between {lo} and {hi}, got {v}"\<close> of
  \<^verbatim>\<open>_validate_inputs\<close>; \<open>Empty_argmax\<close> and \<open>Cannot_broadcast\<close> are the
  messages of numpy for \<^verbatim>\<open>argmax\<close> of an empty array and for operands of
  incompatible shapes. The parts stand for the \<^verbatim>\<open>ValueError\<close> that the statement
  raises whatever its text: an interpreter that limits the digits of an int in a string
  raises a \<^verbatim>\<open>ValueError\<close> of its own text there for an int beyond the limit.
  \<open>OverflowError\<close> is what the conversion of an int to a float raises when the int is
  too large.
\<close>

datatype message = Must_be_between component int int pynum | Empty_argmax | Cannot_broadcast

datatype error = ValueError message | KeyError | IndexError | OverflowError

definition and_then :: "error + 'a \<Rightarrow> ('a \<Rightarrow> error + 'b) \<Rightarrow> error + 'b" where
  "and_then m f = (case m of Inl e \<Rightarrow> Inl e | Inr v \<Rightarrow> f v)"

text \<open>\<^verbatim>\<open>d[k]\<close> on a dict, kept as the list of its items in insertion order.\<close>

definition getitem :: "('k \<times> 'v) list \<Rightarrow> 'k \<Rightarrow> error + 'v" where
  "getitem d k = (case map_of d k of None \<Rightarrow> Inl KeyError | Some v \<Rightarrow> Inr v)"

section \<open>Constants (constants.py)\<close>

definition TRS_CUTPOINTS :: "(component \<times> int) list" where
  "TRS_CUTPOINTS = [(MELD, 20), (SAPS_II, 42), (AGE, 52), (PLATELETS, 78)]"

definition TRS_POINTS :: "(component \<times> int) list" where
  "TRS_POINTS =
     [(MELD, 2), (SAPS_II, 1), (AGE, 1), (PLATELETS, 1), (HCC, 1), (CVVHD, 1), (VHF, 1)]"

definition MAX_SCORE :: int where
  "MAX_SCORE = sum_list (map snd TRS_POINTS)"

record risk_data =
  rc_range :: "int \<times> int"
  rc_mortality_rate :: pynum
  rc_description :: string
  rc_recommendation :: string
  rc_color :: string

definition RISK_CATEGORIES :: "(string \<times> risk_data) list" where
  "RISK_CATEGORIES =
     [(''LOW'', \<lparr>rc_range = (0, 1), rc_mortality_rate = float_lit (10 / 100),
         rc_description = ''Low Risk'',
         rc_recommendation = ''Standard weaning protocol'', rc_color = ''green''\<rparr>),
      (''MEDIUM'', \<lparr>rc_range = (2, 2), rc_mortality_rate = float_lit (33 / 100),
         rc_description = ''Medium Risk'',
         rc_recommendation = ''Enhanced monitoring and assessment'',
         rc_color = ''orange''\<rparr>),
      (''HIGH'', \<lparr>rc_range = (3, 8), rc_mortality_rate = float_lit (46 / 100),
         rc_description = ''High Risk'',
         rc_recommendation = ''Consider early tracheostomy (Day 5-7)'',
         rc_color = ''red''\<rparr>)]"

text \<open>
  An entry of \<^verbatim>\<open>VARIABLE_DEFINITIONS\<close>; the key \<^verbatim>\<open>"range"\<close> is there for the
  continuous variables only. The unit of the platelet count is written in UTF-8 bytes.
\<close>

record variable_definition =
  vd_name :: string
  vd_unit :: string
  vd_range :: "(int \<times> int) option"
  vd_description :: string

definition VARIABLE_DEFINITIONS :: "(component \<times> variable_definition) list" where
  "VARIABLE_DEFINITIONS =
     [(MELD, \<lparr>vd_name = ''Model for End-Stage Liver Disease Score'', vd_unit = ''points'',
         vd_range = Some (6, 40),
         vd_description = ''Primary indicator of liver dysfunction severity''\<rparr>),
      (SAPS_II, \<lparr>vd_name = ''Simplified Acute Physiology Score II'', vd_unit = ''points'',
         vd_range = Some (0, 163),
         vd_description = ''Multi-organ dysfunction assessment''\<rparr>),
      (AGE, \<lparr>vd_name = ''Age at transplantation'', vd_unit = ''years'',
         vd_range = Some (18, 80),
         vd_description = ''Patient age reflecting physiological reserve''\<rparr>),
      (PLATELETS, \<lparr>vd_name = ''Platelet count'',
         vd_unit = [CHR 0xC3, CHR 0x97] @ ''10'' @ [CHR 0xC2, CHR 0xB3] @ ''/''
                   @ [CHR 0xCE, CHR 0xBC] @ ''L'',
         vd_range = Some (10, 500),
         vd_description = ''Coagulopathy and liver dysfunction marker''\<rparr>),
      (HCC, \<lparr>vd_name = ''Hepatocellular carcinoma'', vd_unit = ''boolean'',
         vd_range = None,
         vd_description = ''Oncological burden and prognosis indicator''\<rparr>),
      (CVVHD, \<lparr>vd_name = ''Continuous Veno-Venous Hemodialysis'', vd_unit = ''boolean'',
         vd_range = None,
         vd_description = ''Multi-organ failure and renal support indicator''\<rparr>),
      (VHF, \<lparr>vd_name = ''Atrial fibrillation'', vd_unit = ''boolean'',
         vd_range = None,
         vd_description = ''Cardiovascular comorbidity indicator''\<rparr>)]"

record performance_metric =
  original :: pynum
  bootstrap_mean :: pynum
  bias_corrected :: pynum
  ci_95 :: "pynum \<times> pynum"
  optimism :: pynum

definition PERFORMANCE_METRICS :: "(string \<times> performance_metric) list" where
  "PERFORMANCE_METRICS =
     [(''C_INDEX'', \<lparr>original = float_lit (754 / 1000),
         bootstrap_mean = float_lit (761 / 1000),
         bias_corrected = float_lit (742 / 1000),
         ci_95 = (float_lit (628 / 1000), float_lit (856 / 1000)),
         optimism = float_lit (12 / 1000)\<rparr>),
      (''AUC_60_DAY'', \<lparr>original = float_lit (754 / 1000),
         bootstrap_mean = float_lit (759 / 1000),
         bias_corrected = float_lit (745 / 1000),
         ci_95 = (float_lit (631 / 1000), float_lit (859 / 1000)),
         optimism = float_lit (9 / 1000)\<rparr>),
      (''BRIER_SCORE'', \<lparr>original = float_lit (186 / 1000),
         bootstrap_mean = float_lit (184 / 1000),
         bias_corrected = float_lit (188 / 1000),
         ci_95 = (float_lit (142 / 1000), float_lit (234 / 1000)),
         optimism = num_neg (float_lit (2 / 1000))\<rparr>)]"

text \<open>
  \<^verbatim>\<open>CLINICAL_SETTINGS["MAX_MISSING_COMPONENTS"]\<close>, the only setting that is an
  integer bound on a record.
\<close>

definition MAX_MISSING_COMPONENTS :: nat where
  "MAX_MISSING_COMPONENTS = 2"

section \<open>The calculator (core.py)\<close>

subsection \<open>What a call can see and change besides its arguments\<close>

text \<open>
  \<^verbatim>\<open>datetime.now()\<close> reads a clock, and the module's \<^verbatim>\<open>logger\<close> receives
  lines. The clock is an arbitrary sequence of readings, the logger the list of the
  lines it was given. A line whose text holds an exception is kept as its parts.
\<close>

datatype log_entry = Info string | Error_calculating "string option" error

record world =
  time_source :: "nat \<Rightarrow> nat"
  reads :: nat
  logged :: "log_entry list"

definition datetime_now :: "world \<Rightarrow> nat \<times> world" where
  "datetime_now w = (time_source w (reads w), w\<lparr>reads := Suc (reads w)\<rparr>)"

definition logger_info :: "string \<Rightarrow> world \<Rightarrow> world" where
  "logger_info line w = w\<lparr>logged := logged w @ [Info line]\<rparr>"

definition logger_error :: "log_entry \<Rightarrow> world \<Rightarrow> world" where
  "logger_error entry w = w\<lparr>logged := logged w @ [entry]\<rparr>"

text \<open>\<^verbatim>\<open>str(n)\<close> for an integer.\<close>

fun str_nat :: "nat \<Rightarrow> string" where
  "str_nat n =
     (if n < 10 then [char_of (48 + n)]
      else str_nat (n div 10) @ [char_of (48 + n mod 10)])"

declare str_nat.simps [simp del]

definition str_int :: "int \<Rightarrow> string" where
  "str_int i = (if i < 0 then ''-'' @ str_nat (nat (- i)) else str_nat (nat i))"

subsection \<open>Results\<close>

text \<open>
  The lines of \<^verbatim>\<open>details\<close> and the warnings whose text holds a formatted number or
  an exception are kept as their parts:
  \<open>Detail_scored c cutpoint v pts\<close> is \<^verbatim>\<open>"<c> > {cutpoint} ({v}): +{pts} points"\<close>
  (\<^verbatim>\<open><\<close> for the platelets),
  \<open>Detail_not_scored c cutpoint v\<close> is the line of the other branch, with \<^verbatim>\<open>+0 points\<close>,
  \<open>Detail_present c pts\<close> and \<open>Detail_absent c\<close> are the lines of a flag,
  \<open>Detail_error e\<close> is \<^verbatim>\<open>"Error: {e}"\<close>;
  \<open>Too_many_missing n\<close> is
  \<^verbatim>\<open>"Too many missing components ({n}). Results may be unreliable."\<close> and
  \<open>Calculation_failed e\<close> is \<^verbatim>\<open>"Calculation failed: {e}"\<close>.
\<close>

text \<open>
  The lines of a continuous variable format its value with \<^verbatim>\<open>:.1f\<close> or
  \<^verbatim>\<open>:.0f\<close>. The text is not kept, but the formatting can fail: an int is first
  converted to the nearest double, and one that rounds beyond the doubles, of magnitude
  \<open>2^1024 - 2^970\<close> or more, raises \<^verbatim>\<open>OverflowError\<close>. A finite float is a double
  already, and an infinity or a not-a-number is formatted as it is.
\<close>

definition format_fixed :: "nat \<Rightarrow> pynum \<Rightarrow> error + unit" where
  "format_fixed digits x =
     (case x of
        Fin q \<Rightarrow> (case round_double q of Fin y \<Rightarrow> Inr () | _ \<Rightarrow> Inl OverflowError)
      | _ \<Rightarrow> Inr ())"

datatype detail =
    Detail_scored component int pynum int
  | Detail_not_scored component int pynum
  | Detail_present component int
  | Detail_absent component
  | Detail_error error

datatype warning = Warning string | Too_many_missing nat | Calculation_failed error

record TRSResult =
  total_score :: int
  component_scores :: "(component \<times> int) list"
  risk_category :: string
  risk_description :: string
  recommendation :: string
  mortality_risk :: pynum
  details :: "detail list"
  timestamp :: nat
  valid :: bool
  warnings :: "warning list"

record TRSCalculator =
  validate_inputs :: bool
  log_calculations :: bool

text \<open>The arguments of \<^verbatim>\<open>calculate_score\<close>; each is \<^verbatim>\<open>None\<close> by default.\<close>

record score_args =
  meld :: "pynum option"
  saps_ii :: "pynum option"
  age :: "pynum option"
  platelets :: "pynum option"
  hcc :: "bool option"
  cvvhd :: "bool option"
  vhf :: "bool option"
  patient_id :: "string option"

subsection \<open>\<^verbatim>\<open>_validate_inputs\<close>\<close>

text \<open>
  \<^verbatim>\<open>lo <= x <= hi\<close> is \<^verbatim>\<open>lo <= x and x <= hi\<close>. The flags are not looked at.
\<close>

definition validate_meld :: "pynum option \<Rightarrow> error + unit" where
  "validate_meld meld_v =
     (case meld_v of
        None \<Rightarrow> Inr ()
      | Some x \<Rightarrow>
          and_then (getitem VARIABLE_DEFINITIONS MELD) (\<lambda>d.
            case vd_range d of
              None \<Rightarrow> Inl KeyError
            | Some meld_range \<Rightarrow>
                if \<not> (num_le (py_int (fst meld_range)) x \<and> num_le x (py_int (snd meld_range)))
                then Inl (ValueError (Must_be_between MELD (fst meld_range) (snd meld_range) x))
                else Inr ()))"

definition validate_saps_ii :: "pynum option \<Rightarrow> error + unit" where
  "validate_saps_ii saps_ii_v =
     (case saps_ii_v of
        None \<Rightarrow> Inr ()
      | Some x \<Rightarrow>
          and_then (getitem VARIABLE_DEFINITIONS SAPS_II) (\<lambda>d.
            case vd_range d of
              None \<Rightarrow> Inl KeyError
            | Some saps_range \<Rightarrow>
                if \<not> (num_le (py_int (fst saps_range)) x \<and> num_le x (py_int (snd saps_range)))
                then Inl (ValueError (Must_be_between SAPS_II (fst saps_range) (snd saps_range) x))
                else Inr ()))"

definition validate_age :: "pynum option \<Rightarrow> error + unit" where
  "validate_age age_v =
     (case age_v of
        None \<Rightarrow> Inr ()
      | Some x \<Rightarrow>
          and_then (getitem VARIABLE_DEFINITIONS AGE) (\<lambda>d.
            case vd_range d of
              None \<Rightarrow> Inl KeyError
            | Some age_range \<Rightarrow>
                if \<not> (num_le (py_int (fst age_range)) x \<and> num_le x (py_int (snd age_range)))
                then Inl (ValueError (Must_be_between AGE (fst age_range) (snd age_range) x))
                else Inr ()))"

definition validate_platelets :: "pynum option \<Rightarrow> error + unit" where
  "validate_platelets platelets_v =
     (case platelets_v of
        None \<Rightarrow> Inr ()
      | Some x \<Rightarrow>
          and_then (getitem VARIABLE_DEFINITIONS PLATELETS) (\<lambda>d.
            case vd_range d of
              None \<Rightarrow> Inl KeyError
            | Some plt_range \<Rightarrow>
                if \<not> (num_le (py_int (fst plt_range)) x \<and> num_le x (py_int (snd plt_range)))
                then Inl (ValueError (Must_be_between PLATELETS (fst plt_range) (snd plt_range) x))
                else Inr ()))"

definition validate_inputs_fn :: "score_args \<Rightarrow> error + unit" where
  "validate_inputs_fn a =
     and_then (validate_meld (meld a)) (\<lambda>_.
     and_then (validate_saps_ii (saps_ii a)) (\<lambda>_.
     and_then (validate_age (age a)) (\<lambda>_.
     validate_platelets (platelets a))))"

subsection \<open>\<^verbatim>\<open>_check_missing_data\<close>\<close>

definition check_missing_data :: "score_args \<Rightarrow> component list" where
  "check_missing_data a =
     (if meld a = None then [MELD] else [])
     @ (if saps_ii a = None then [SAPS_II] else [])
     @ (if age a = None then [AGE] else [])
     @ (if platelets a = None then [PLATELETS] else [])
     @ (if hcc a = None then [HCC] else [])
     @ (if cvvhd a = None then [CVVHD] else [])
     @ (if vhf a = None then [VHF] else [])"

subsection \<open>\<^verbatim>\<open>_determine_risk_category\<close>\<close>

text \<open>The loop over the items of \<^verbatim>\<open>RISK_CATEGORIES\<close>, in their order.\<close>

fun find_category :: "(string \<times> risk_data) list \<Rightarrow> int \<Rightarrow> (string \<times> risk_data) option" where
  "find_category [] score = None"
| "find_category ((category, data) # rest) score =
     (if fst (rc_range data) \<le> score \<and> score \<le> snd (rc_range data)
      then Some (category, data)
      else find_category rest score)"

definition determine_risk_category :: "int \<Rightarrow> error + string \<times> risk_data" where
  "determine_risk_category score =
     (case find_category RISK_CATEGORIES score of
        Some found \<Rightarrow> Inr found
      | None \<Rightarrow>
          if score < 0
          then and_then (getitem RISK_CATEGORIES ''LOW'') (\<lambda>data. Inr (''LOW'', data))
          else and_then (getitem RISK_CATEGORIES ''HIGH'') (\<lambda>data. Inr (''HIGH'', data)))"

subsection \<open>\<^verbatim>\<open>calculate_score\<close>\<close>

text \<open>
  The local variables that the seven blocks of the function update. A dict keeps its
  items in insertion order; \<^verbatim>\<open>d[k] = v\<close> replaces the value of a key that is there
  and appends the item otherwise.
\<close>

record locals =
  l_component_scores :: "(component \<times> int) list"
  l_details :: "detail list"
  l_warnings :: "warning list"
  l_total_score :: int

definition initial_locals :: locals where
  "initial_locals =
     \<lparr>l_component_scores = [], l_details = [], l_warnings = [], l_total_score = 0\<rparr>"

text \<open>MELD component (2 points if > 20).\<close>

definition meld_component :: "pynum option \<Rightarrow> locals \<Rightarrow> error + locals" where
  "meld_component meld_v s =
     (case meld_v of
        Some x \<Rightarrow>
          and_then (getitem TRS_CUTPOINTS MELD) (\<lambda>cutpoint.
            if num_gt x (py_int cutpoint)
            then and_then (getitem TRS_POINTS MELD) (\<lambda>pts.
                 and_then (format_fixed 1 x) (\<lambda>_.
                   Inr (s\<lparr>l_component_scores := AList.update MELD pts (l_component_scores s),
                          l_total_score := l_total_score s + pts,
                          l_details := l_details s @ [Detail_scored MELD cutpoint x pts]\<rparr>)))
            else and_then (format_fixed 1 x) (\<lambda>_.
                   Inr (s\<lparr>l_component_scores := AList.update MELD 0 (l_component_scores s),
                          l_details := l_details s @ [Detail_not_scored MELD cutpoint x]\<rparr>)))
      | None \<Rightarrow> Inr (s\<lparr>l_warnings := l_warnings s @ [Warning ''MELD score missing'']\<rparr>))"

text \<open>SAPS II component (1 point if > 42).\<close>

definition saps_ii_component :: "pynum option \<Rightarrow> locals \<Rightarrow> error + locals" where
  "saps_ii_component saps_ii_v s =
     (case saps_ii_v of
        Some x \<Rightarrow>
          and_then (getitem TRS_CUTPOINTS SAPS_II) (\<lambda>cutpoint.
            if num_gt x (py_int cutpoint)
            then and_then (getitem TRS_POINTS SAPS_II) (\<lambda>pts.
                 and_then (format_fixed 1 x) (\<lambda>_.
                   Inr (s\<lparr>l_component_scores := AList.update SAPS_II pts (l_component_scores s),
                          l_total_score := l_total_score s + pts,
                          l_details := l_details s @ [Detail_scored SAPS_II cutpoint x pts]\<rparr>)))
            else and_then (format_fixed 1 x) (\<lambda>_.
                   Inr (s\<lparr>l_component_scores := AList.update SAPS_II 0 (l_component_scores s),
                          l_details := l_details s @ [Detail_not_scored SAPS_II cutpoint x]\<rparr>)))
      | None \<Rightarrow> Inr (s\<lparr>l_warnings := l_warnings s @ [Warning ''SAPS II score missing'']\<rparr>))"

text \<open>Age component (1 point if > 52).\<close>

definition age_component :: "pynum option \<Rightarrow> locals \<Rightarrow> error + locals" where
  "age_component age_v s =
     (case age_v of
        Some x \<Rightarrow>
          and_then (getitem TRS_CUTPOINTS AGE) (\<lambda>cutpoint.
            if num_gt x (py_int cutpoint)
            then and_then (getitem TRS_POINTS AGE) (\<lambda>pts.
                 and_then (format_fixed 0 x) (\<lambda>_.
                   Inr (s\<lparr>l_component_scores := AList.update AGE pts (l_component_scores s),
                          l_total_score := l_total_score s + pts,
                          l_details := l_details s @ [Detail_scored AGE cutpoint x pts]\<rparr>)))
            else and_then (format_fixed 0 x) (\<lambda>_.
                   Inr (s\<lparr>l_component_scores := AList.update AGE 0 (l_component_scores s),
                          l_details := l_details s @ [Detail_not_scored AGE cutpoint x]\<rparr>)))
      | None \<Rightarrow> Inr (s\<lparr>l_warnings := l_warnings s @ [Warning ''Age missing'']\<rparr>))"

text \<open>Platelets component (1 point if < 78).\<close>

definition platelets_component :: "pynum option \<Rightarrow> locals \<Rightarrow> error + locals" where
  "platelets_component platelets_v s =
     (case platelets_v of
        Some x \<Rightarrow>
          and_then (getitem TRS_CUTPOINTS PLATELETS) (\<lambda>cutpoint.
            if num_lt x (py_int cutpoint)
            then and_then (getitem TRS_POINTS PLATELETS) (\<lambda>pts.
                 and_then (format_fixed 0 x) (\<lambda>_.
                   Inr (s\<lparr>l_component_scores := AList.update PLATELETS pts (l_component_scores s),
                          l_total_score := l_total_score s + pts,
                          l_details := l_details s @ [Detail_scored PLATELETS cutpoint x pts]\<rparr>)))
            else and_then (format_fixed 0 x) (\<lambda>_.
                   Inr (s\<lparr>l_component_scores := AList.update PLATELETS 0 (l_component_scores s),
                          l_details := l_details s @ [Detail_not_scored PLATELETS cutpoint x]\<rparr>)))
      | None \<Rightarrow> Inr (s\<lparr>l_warnings := l_warnings s @ [Warning ''Platelet count missing'']\<rparr>))"

text \<open>HCC, CVVHD and VHF components (1 point each if present).\<close>

definition hcc_component :: "bool option \<Rightarrow> locals \<Rightarrow> error + locals" where
  "hcc_component hcc_v s =
     (case hcc_v of
        Some b \<Rightarrow>
          if b
          then and_then (getitem TRS_POINTS HCC) (\<lambda>pts.
                 Inr (s\<lparr>l_component_scores := AList.update HCC pts (l_component_scores s),
                        l_total_score := l_total_score s + pts,
                        l_details := l_details s @ [Detail_present HCC pts]\<rparr>))
          else Inr (s\<lparr>l_component_scores := AList.update HCC 0 (l_component_scores s),
                      l_details := l_details s @ [Detail_absent HCC]\<rparr>)
      | None \<Rightarrow> Inr (s\<lparr>l_warnings := l_warnings s @ [Warning ''HCC status missing'']\<rparr>))"

definition cvvhd_component :: "bool option \<Rightarrow> locals \<Rightarrow> error + locals" where
  "cvvhd_component cvvhd_v s =
     (case cvvhd_v of
        Some b \<Rightarrow>
          if b
          then and_then (getitem TRS_POINTS CVVHD) (\<lambda>pts.
                 Inr (s\<lparr>l_component_scores := AList.update CVVHD pts (l_component_scores s),
                        l_total_score := l_total_score s + pts,
                        l_details := l_details s @ [Detail_present CVVHD pts]\<rparr>))
          else Inr (s\<lparr>l_component_scores := AList.update CVVHD 0 (l_component_scores s),
                      l_details := l_details s @ [Detail_absent CVVHD]\<rparr>)
      | None \<Rightarrow> Inr (s\<lparr>l_warnings := l_warnings s @ [Warning ''CVVHD status missing'']\<rparr>))"

definition vhf_component :: "bool option \<Rightarrow> locals \<Rightarrow> error + locals" where
  "vhf_component vhf_v s =
     (case vhf_v of
        Some b \<Rightarrow>
          if b
          then and_then (getitem TRS_POINTS VHF) (\<lambda>pts.
                 Inr (s\<lparr>l_component_scores := AList.update VHF pts (l_component_scores s),
                        l_total_score := l_total_score s + pts,
                        l_details := l_details s @ [Detail_present VHF pts]\<rparr>))
          else Inr (s\<lparr>l_component_scores := AList.update VHF 0 (l_component_scores s),
                      l_details := l_details s @ [Detail_absent VHF]\<rparr>)
      | None \<Rightarrow> Inr (s\<lparr>l_warnings := l_warnings s @ [Warning ''Atrial fibrillation status missing'']\<rparr>))"

definition score_components :: "score_args \<Rightarrow> error + locals" where
  "score_components a =
     and_then (meld_component (meld a) initial_locals) (\<lambda>s1.
     and_then (saps_ii_component (saps_ii a) s1) (\<lambda>s2.
     and_then (age_component (age a) s2) (\<lambda>s3.
     and_then (platelets_component (platelets a) s3) (\<lambda>s4.
     and_then (hcc_component (hcc a) s4) (\<lambda>s5.
     and_then (cvvhd_component (cvvhd a) s5) (\<lambda>s6.
     vhf_component (vhf a) s6))))))"

text \<open>
  \<^verbatim>\<open>if self.log_calculations and patient_id\<close>: a string is true when it is not empty.
\<close>

definition truthy :: "string option \<Rightarrow> bool" where
  "truthy v = (case v of None \<Rightarrow> False | Some t \<Rightarrow> t \<noteq> [])"

definition str_opt :: "string option \<Rightarrow> string" where
  "str_opt v = (case v of None \<Rightarrow> ''None'' | Some t \<Rightarrow> t)"

text \<open>
  The function reads the clock, logs, validates when the calculator was built with
  \<^verbatim>\<open>validate_inputs\<close>, lists the missing components, runs the seven blocks, finds the
  risk category, and decides \<^verbatim>\<open>valid\<close> with the literal \<^verbatim>\<open>2\<close>. An exception,
  of the validation or of the formatting of a detail line, leaves the clock reading and
  the first log line behind.
\<close>

definition calculate_score ::
  "TRSCalculator \<Rightarrow> score_args \<Rightarrow> world \<Rightarrow> (error + TRSResult) \<times> world" where
  "calculate_score self a w =
     (let (timestamp_v, w1) = datetime_now w;
          w2 = (if log_calculations self \<and> truthy (patient_id a)
                then logger_info (''Calculating TRS for patient '' @ str_opt (patient_id a)) w1
                else w1)
      in case (if validate_inputs self then validate_inputs_fn a else Inr ()) of
           Inl e \<Rightarrow> (Inl e, w2)
         | Inr _ \<Rightarrow>
            (let missing_components = check_missing_data a
             in case score_components a of
                  Inl e \<Rightarrow> (Inl e, w2)
                | Inr s \<Rightarrow>
                   (case determine_risk_category (l_total_score s) of
                      Inl e \<Rightarrow> (Inl e, w2)
                    | Inr (risk_category_v, risk_data_v) \<Rightarrow>
                       (let valid_v = (length missing_components \<le> 2);
                            warnings_v =
                              (if \<not> valid_v
                               then l_warnings s @ [Too_many_missing (length missing_components)]
                               else l_warnings s);
                            w3 = (if log_calculations self
                                  then logger_info
                                         (''TRS calculation complete: Score=''
                                          @ str_int (l_total_score s)
                                          @ '', Risk='' @ risk_category_v) w2
                                  else w2)
                        in (Inr \<lparr>total_score = l_total_score s,
                                  component_scores = l_component_scores s,
                                  risk_category = risk_category_v,
                                  risk_description = rc_description risk_data_v,
                                  recommendation = rc_recommendation risk_data_v,
                                  mortality_risk = rc_mortality_rate risk_data_v,
                                  details = l_details s,
                                  timestamp = timestamp_v,
                                  valid = valid_v,
                                  warnings = warnings_v\<rparr>, w3)))))"

subsection \<open>\<^verbatim>\<open>calculate_batch\<close>\<close>

text \<open>
  A patient is a dict; \<^verbatim>\<open>patient_data.get(k)\<close> is \<^verbatim>\<open>None\<close> for a key that is
  not there as for a key whose value is \<^verbatim>\<open>None\<close>, so the seven values are options.
  \<^verbatim>\<open>patient_data.get('patient_id', default)\<close> tells the two apart: \<open>None\<close> is no
  such key, \<open>Some None\<close> the key with the value \<^verbatim>\<open>None\<close>. The values have the types
  that \<^verbatim>\<open>calculate_score\<close> declares for its arguments.
\<close>

record patient_data =
  d_meld :: "pynum option"
  d_saps_ii :: "pynum option"
  d_age :: "pynum option"
  d_platelets :: "pynum option"
  d_hcc :: "bool option"
  d_cvvhd :: "bool option"
  d_vhf :: "bool option"
  d_patient_id :: "string option option"

text \<open>The arguments that the loop passes for the patient at index \<open>i\<close>.\<close>

definition batch_args :: "nat \<Rightarrow> patient_data \<Rightarrow> score_args" where
  "batch_args i p =
     \<lparr>meld = d_meld p, saps_ii = d_saps_ii p, age = d_age p, platelets = d_platelets p,
      hcc = d_hcc p, cvvhd = d_cvvhd p, vhf = d_vhf p,
      patient_id = (case d_patient_id p of
                      None \<Rightarrow> Some (''patient_'' @ str_nat (i + 1))
                    | Some v \<Rightarrow> v)\<rparr>"

text \<open>The result that the \<^verbatim>\<open>except\<close> branch builds.\<close>

definition error_result :: "error \<Rightarrow> nat \<Rightarrow> TRSResult" where
  "error_result e now =
     \<lparr>total_score = - 1,
      component_scores = [],
      risk_category = ''ERROR'',
      risk_description = ''Calculation Error'',
      recommendation = ''Unable to calculate - check input data'',
      mortality_risk = float_lit 0,
      details = [Detail_error e],
      timestamp = now,
      valid = False,
      warnings = [Calculation_failed e]\<rparr>"

text \<open>
  The loop, from index \<open>i\<close> on, with the results so far. \<^verbatim>\<open>except Exception\<close>
  catches every exception of the call.
\<close>

fun batch_loop ::
  "TRSCalculator \<Rightarrow> nat \<Rightarrow> patient_data list \<Rightarrow> TRSResult list \<Rightarrow> world
     \<Rightarrow> TRSResult list \<times> world" where
  "batch_loop self i [] results w = (results, w)"
| "batch_loop self i (p # rest) results w =
     (case calculate_score self (batch_args i p) w of
        (Inr result, w1) \<Rightarrow> batch_loop self (i + 1) rest (results @ [result]) w1
      | (Inl e, w1) \<Rightarrow>
          (let w2 = logger_error (Error_calculating (patient_id (batch_args i p)) e) w1;
               (now, w3) = datetime_now w2
           in batch_loop self (i + 1) rest (results @ [error_result e now]) w3))"

definition calculate_batch ::
  "TRSCalculator \<Rightarrow> patient_data list \<Rightarrow> world \<Rightarrow> TRSResult list \<times> world" where
  "calculate_batch self patients_data w = batch_loop self 0 patients_data [] w"

section \<open>The optimal cut-point (plotting/plot_roc_matrix_CLEAN.py)\<close>

text \<open>
  \<^verbatim>\<open>generate_roc_data\<close> takes the arrays \<^verbatim>\<open>fpr, tpr, thresholds\<close> from
  scikit-learn's \<^verbatim>\<open>roc_curve\<close> and finds the operating point of the greatest Youden
  index with numpy. The three arrays are the input here. \<^verbatim>\<open>roc_curve\<close> returns arrays
  of one length, of two entries at least, with the thresholds in decreasing order.
\<close>

text \<open>
  \<^verbatim>\<open>a - b\<close> on two one-dimensional arrays: entry by entry; an array of one entry is
  stretched to the length of the other; other lengths that differ cannot be broadcast.
\<close>

definition np_subtract :: "pynum list \<Rightarrow> pynum list \<Rightarrow> error + pynum list" where
  "np_subtract a b =
     (if length a = length b then Inr (map2 num_sub a b)
      else if length b = 1 then Inr (map (\<lambda>x. num_sub x (hd b)) a)
      else if length a = 1 then Inr (map (\<lambda>y. num_sub (hd a) y) b)
      else Inl (ValueError Cannot_broadcast))"

text \<open>
  \<^verbatim>\<open>np.argmax\<close> on an array of floats: the index of the first occurrence of the
  maximum, where a not-a-number counts as the maximum; an empty array is an error.
  The loop keeps the maximum \<open>mp\<close> so far and its index, and replaces them at index
  \<open>i\<close> when \<^verbatim>\<open>!(a[i] <= mp)\<close>.
\<close>

fun argmax_loop :: "pynum \<Rightarrow> nat \<Rightarrow> nat \<Rightarrow> pynum list \<Rightarrow> nat" where
  "argmax_loop mp max_ind i [] = max_ind"
| "argmax_loop mp max_ind i (x # xs) =
     (if \<not> num_le x mp
      then (if x = NaN then i else argmax_loop x i (i + 1) xs)
      else argmax_loop mp max_ind (i + 1) xs)"

definition argmax :: "pynum list \<Rightarrow> error + nat" where
  "argmax a =
     (case a of
        [] \<Rightarrow> Inl (ValueError Empty_argmax)
      | x # xs \<Rightarrow> if x = NaN then Inr 0 else Inr (argmax_loop x 0 1 xs))"

text \<open>\<^verbatim>\<open>a[i]\<close> for an index that is not negative.\<close>

definition getindex :: "'a list \<Rightarrow> nat \<Rightarrow> error + 'a" where
  "getindex a i = (if i < length a then Inr (a ! i) else Inl IndexError)"

record cut_point =
  optimal_idx :: nat
  optimal_threshold :: pynum
  sensitivity :: pynum
  specificity :: pynum
  youden_index :: pynum

text \<open>
  The lines under \<^verbatim>\<open># Find optimal cut-point (Youden Index)\<close>. The function returns
  \<^verbatim>\<open>sensitivity\<close>, \<^verbatim>\<open>specificity\<close> and \<^verbatim>\<open>youden_index\<close>, and drops
  \<^verbatim>\<open>optimal_threshold\<close>.
\<close>

definition find_optimal_cut_point ::
  "pynum list \<Rightarrow> pynum list \<Rightarrow> pynum list \<Rightarrow> error + cut_point" where
  "find_optimal_cut_point fpr tpr thresholds =
     and_then (np_subtract tpr fpr) (\<lambda>youden_scores.
     and_then (argmax youden_scores) (\<lambda>idx.
     and_then (getindex thresholds idx) (\<lambda>threshold_v.
     and_then (getindex tpr idx) (\<lambda>sensitivity_v.
     and_then (getindex fpr idx) (\<lambda>fpr_v.
     and_then (getindex youden_scores idx) (\<lambda>youden_v.
       Inr \<lparr>optimal_idx = idx,
            optimal_threshold = threshold_v,
            sensitivity = sensitivity_v,
            specificity = num_sub (py_int 1) fpr_v,
            youden_index = youden_v\<rparr>))))))"

section \<open>Notions of the specification\<close>

text \<open>
  A value lies outside a declared range when \<^verbatim>\<open>lo <= x <= hi\<close> is false; a record
  violates the declared ranges (MELD 6 to 40, SAPS II 0 to 163, age 18 to 80, platelets
  10 to 500) when one of its present continuous values does.
\<close>

definition outside :: "int \<Rightarrow> int \<Rightarrow> pynum option \<Rightarrow> bool" where
  "outside lo hi v =
     (case v of None \<Rightarrow> False
      | Some x \<Rightarrow> \<not> (num_le (py_int lo) x \<and> num_le x (py_int hi)))"

definition range_violation :: "score_args \<Rightarrow> bool" where
  "range_violation a =
     (outside 6 40 (meld a) \<or> outside 0 163 (saps_ii a)
      \<or> outside 18 80 (age a) \<or> outside 10 500 (platelets a))"

text \<open>The number of absent variables of a record.\<close>

definition absent :: "'a option \<Rightarrow> nat" where
  "absent v = (case v of None \<Rightarrow> 1 | Some _ \<Rightarrow> 0)"

definition absent_count :: "score_args \<Rightarrow> nat" where
  "absent_count a =
     absent (meld a) + absent (saps_ii a) + absent (age a) + absent (platelets a)
     + absent (hcc a) + absent (cvvhd a) + absent (vhf a)"

text \<open>
  The points of a continuous value beyond its cutpoint, strictly, and of a flag; an
  absent value has none.
\<close>

definition points_above :: "int \<Rightarrow> int \<Rightarrow> pynum option \<Rightarrow> int" where
  "points_above cutpoint pts v =
     (case v of None \<Rightarrow> 0 | Some x \<Rightarrow> if num_gt x (py_int cutpoint) then pts else 0)"

definition points_below :: "int \<Rightarrow> int \<Rightarrow> pynum option \<Rightarrow> int" where
  "points_below cutpoint pts v =
     (case v of None \<Rightarrow> 0 | Some x \<Rightarrow> if num_lt x (py_int cutpoint) then pts else 0)"

definition points_flag :: "int \<Rightarrow> bool option \<Rightarrow> int" where
  "points_flag pts v = (case v of None \<Rightarrow> 0 | Some b \<Rightarrow> if b then pts else 0)"

text \<open>A result without the reading of the clock.\<close>

definition untimed :: "TRSResult \<Rightarrow> TRSResult" where
  "untimed r = r\<lparr>timestamp := 0\<rparr>"

text \<open>What a call returns or raises, without the reading of the clock.\<close>

definition outcome :: "(error + TRSResult) \<times> world \<Rightarrow> error + TRSResult" where
  "outcome res = map_sum id untimed (fst res)"

text \<open>
  The items of the component-score mapping, the warnings and the total of a record, in
  closed form: a present variable has one item, an absent one has one warning.
\<close>

definition entry :: "component \<Rightarrow> int \<Rightarrow> 'a option \<Rightarrow> (component \<times> int) list" where
  "entry c pts v = (case v of None \<Rightarrow> [] | Some _ \<Rightarrow> [(c, pts)])"

definition missing_warning :: "string \<Rightarrow> 'a option \<Rightarrow> warning list" where
  "missing_warning text v = (case v of None \<Rightarrow> [Warning text] | Some _ \<Rightarrow> [])"

definition expected_total :: "score_args \<Rightarrow> int" where
  "expected_total a =
     points_above 20 2 (meld a) + points_above 42 1 (saps_ii a)
     + points_above 52 1 (age a) + points_below 78 1 (platelets a)
     + points_flag 1 (hcc a) + points_flag 1 (cvvhd a) + points_flag 1 (vhf a)"

definition expected_scores :: "score_args \<Rightarrow> (component \<times> int) list" where
  "expected_scores a =
     entry MELD (points_above 20 2 (meld a)) (meld a)
     @ entry SAPS_II (points_above 42 1 (saps_ii a)) (saps_ii a)
     @ entry AGE (points_above 52 1 (age a)) (age a)
     @ entry PLATELETS (points_below 78 1 (platelets a)) (platelets a)
     @ entry HCC (points_flag 1 (hcc a)) (hcc a)
     @ entry CVVHD (points_flag 1 (cvvhd a)) (cvvhd a)
     @ entry VHF (points_flag 1 (vhf a)) (vhf a)"

definition expected_missing_warnings :: "score_args \<Rightarrow> warning list" where
  "expected_missing_warnings a =
     missing_warning ''MELD score missing'' (meld a)
     @ missing_warning ''SAPS II score missing'' (saps_ii a)
     @ missing_warning ''Age missing'' (age a)
     @ missing_warning ''Platelet count missing'' (platelets a)
     @ missing_warning ''HCC status missing'' (hcc a)
     @ missing_warning ''CVVHD status missing'' (cvvhd a)
     @ missing_warning ''Atrial fibrillation status missing'' (vhf a)"


section \<open>Concrete inputs, and notions stated with them\<close>


definition strict_calculator :: TRSCalculator where
  "strict_calculator = \<lparr>validate_inputs = True, log_calculations = True\<rparr>"

definition fresh_world :: world where
  "fresh_world = \<lparr>time_source = (\<lambda>n. n), reads = 0, logged = []\<rparr>"

definition three_missing :: score_args where
  "three_missing =
     \<lparr>meld = Some (py_int 25), saps_ii = None, age = None, platelets = Some (py_int 70),
      hcc = Some True, cvvhd = None, vhf = Some False, patient_id = Some ''P001''\<rparr>"

definition meld_too_high :: score_args where
  "meld_too_high =
     \<lparr>meld = Some (py_int 50), saps_ii = None, age = None, platelets = None,
      hcc = None, cvvhd = None, vhf = None, patient_id = None\<rparr>"

definition lenient_calculator :: TRSCalculator where
  "lenient_calculator = \<lparr>validate_inputs = False, log_calculations = False\<rparr>"

text \<open>Whether a score lies in the range of a risk category.\<close>

definition in_category :: "int \<Rightarrow> string \<times> risk_data \<Rightarrow> bool" where
  "in_category score c = (fst (rc_range (snd c)) \<le> score \<and> score \<le> snd (rc_range (snd c)))"

text \<open>
  What the patient at index \<open>i\<close> of a batch gets when it is processed alone, without
  the reading of the clock: its result, or the failure entry of the exception.
\<close>

definition isolated_result :: "TRSCalculator \<Rightarrow> nat \<Rightarrow> patient_data \<Rightarrow> TRSResult" where
  "isolated_result self i p =
     (case fst (calculate_score self (batch_args i p) fresh_world) of
        Inr r \<Rightarrow> untimed r
      | Inl e \<Rightarrow> untimed (error_result e 0))"

definition bad_patient :: patient_data where
  "bad_patient =
     \<lparr>d_meld = Some (py_int 50), d_saps_ii = Some (py_int 45), d_age = Some (py_int 55),
      d_platelets = Some (py_int 70), d_hcc = Some True, d_cvvhd = Some False,
      d_vhf = Some True, d_patient_id = Some (Some ''P001'')\<rparr>"

definition good_patient :: patient_data where
  "good_patient =
     \<lparr>d_meld = Some (py_int 15), d_saps_ii = Some (py_int 35), d_age = Some (py_int 45),
      d_platelets = Some (py_int 100), d_hcc = Some False, d_cvvhd = Some False,
      d_vhf = Some False, d_patient_id = None\<rparr>"

text \<open>
  \<^verbatim>\<open>youden_index == sensitivity + specificity - 1\<close>, as Python evaluates it on floats.
\<close>

definition youden_identity :: "cut_point \<Rightarrow> bool" where
  "youden_identity c =
     num_eq (youden_index c) (num_sub (num_add (sensitivity c) (specificity c)) (py_int 1))"

text \<open>A finite number, and a double that a real number is.\<close>

definition finite_num :: "pynum \<Rightarrow> bool" where
  "finite_num x = (case x of Fin _ \<Rightarrow> True | _ \<Rightarrow> False)"

definition exact :: "rat \<Rightarrow> bool" where
  "exact q = (round_double q = Fin q)"

text \<open>
  The arrays that \<^verbatim>\<open>roc_curve\<close> returns for the labels \<^verbatim>\<open>[1, 0, 1, 0]\<close> with the
  scores \<^verbatim>\<open>[0.9, 0.8, 0.7, 0.6]\<close>: the thresholds 0.9 and 0.7 both have the greatest
  Youden index, 0.5.
\<close>

definition tie_fpr :: "pynum list" where
  "tie_fpr = [Fin 0, Fin 0, Fin (1 / 2), Fin (1 / 2), Fin 1]"

definition tie_tpr :: "pynum list" where
  "tie_tpr = [Fin 0, Fin (1 / 2), Fin (1 / 2), Fin 1, Fin 1]"

definition tie_thresholds :: "pynum list" where
  "tie_thresholds =
     [PInf, float_lit (9 / 10), float_lit (8 / 10), float_lit (7 / 10), float_lit (6 / 10)]"

text \<open>
  The arrays that \<^verbatim>\<open>roc_curve\<close> returns for ten positive and ten negative cases
  whose scores, in decreasing order, belong to one negative case, eight positive ones,
  nine negative ones and two positive ones: the rates are the doubles 1/10 and 8/10.
\<close>

definition rounding_fpr :: "pynum list" where
  "rounding_fpr = [Fin 0, float_lit (1 / 10), float_lit (1 / 10), Fin 1, Fin 1]"

definition rounding_tpr :: "pynum list" where
  "rounding_tpr = [Fin 0, Fin 0, float_lit (8 / 10), float_lit (8 / 10), Fin 1]"

definition rounding_thresholds :: "pynum list" where
  "rounding_thresholds = [PInf, Fin (7 / 8), Fin (1 / 2), Fin (1 / 4), Fin (1 / 8)]"

text \<open>
  A present value that cannot be formatted: an int too large for a double. A record
  overflows when one of its present continuous values is such.
\<close>

definition too_large :: "pynum option \<Rightarrow> bool" where
  "too_large v =
     (case v of
        Some (Fin q) \<Rightarrow> (case round_double q of Fin y \<Rightarrow> False | _ \<Rightarrow> True)
      | _ \<Rightarrow> False)"

definition format_overflow :: "score_args \<Rightarrow> bool" where
  "format_overflow a =
     (too_large (meld a) \<or> too_large (saps_ii a) \<or> too_large (age a)
      \<or> too_large (platelets a))"

definition huge_meld :: score_args where
  "huge_meld =
     \<lparr>meld = Some (py_int (2 ^ 1024)), saps_ii = None, age = None, platelets = None,
      hcc = None, cvvhd = None, vhf = None, patient_id = None\<rparr>"


section \<open>Properties of the doubles\<close>

lemma pow2_pos [simp]: "0 < pow2 e"
  by (simp add: pow2_def)

lemma pow2_abs [simp]: "\<bar>pow2 e\<bar> = pow2 e"
  using pow2_pos [of e] by (simp only: abs_of_pos)

lemma pow2_add: "pow2 (i + j) = pow2 i * pow2 j"
  by (simp add: pow2_def power_int_add)

lemma pow2_less_iff [simp]: "pow2 i < pow2 j \<longleftrightarrow> i < j"
proof
  assume "pow2 i < pow2 j"
  show "i < j"
  proof (rule ccontr)
    assume "\<not> i < j"
    then have "j \<le> i" by simp
    then have "pow2 j \<le> pow2 i"
      unfolding pow2_def by (intro power_int_increasing) simp_all
    with \<open>pow2 i < pow2 j\<close> show False by simp
  qed
next
  assume "i < j"
  then show "pow2 i < pow2 j"
    unfolding pow2_def by (intro power_int_strict_increasing) simp_all
qed

lemma pow2_le_iff [simp]: "pow2 i \<le> pow2 j \<longleftrightarrow> i \<le> j"
  using pow2_less_iff [of j i] by (simp only: not_less [symmetric])

lemma pow2_nat: "0 \<le> e \<Longrightarrow> pow2 e = 2 ^ nat e"
  by (simp add: pow2_def power_int_def)

lemma bitlen_pow2_bounds:
  assumes "0 < a"
  shows "pow2 (bitlen a - 1) \<le> of_int a" "of_int a < pow2 (bitlen a)"
proof -
  from bitlen_bounds [OF assms]
  have b: "2 ^ nat (bitlen a - 1) \<le> a" "a < 2 ^ nat (bitlen a)" by simp_all
  have p: "1 \<le> bitlen a"
    using assms by (simp add: bitlen_alt_def)
  have "pow2 (bitlen a - 1) = of_int (2 ^ nat (bitlen a - 1))"
    using p by (simp add: pow2_nat)
  also have "\<dots> \<le> of_int a"
    using b(1) by (simp only: of_int_le_iff)
  finally show "pow2 (bitlen a - 1) \<le> of_int a" .
  have "(of_int a :: rat) < of_int (2 ^ nat (bitlen a))"
    using b(2) by (simp only: of_int_less_iff)
  also have "\<dots> = pow2 (bitlen a)"
    using p by (simp add: pow2_nat)
  finally show "of_int a < pow2 (bitlen a)" .
qed

lemma ilog2_bounds:
  assumes "0 < x"
  shows "pow2 (ilog2 x) \<le> x \<and> x < pow2 (ilog2 x + 1)"
proof -
  obtain a b where q: "quotient_of x = (a, b)" by (cases "quotient_of x")
  then have b: "0 < b" and x: "x = of_int a / of_int b"
    using quotient_of_denom_pos quotient_of_div by blast+
  have a: "0 < a"
    using assms b x by (simp add: zero_less_divide_iff)
  define e where "e = bitlen a - bitlen b"
  note ba = bitlen_pow2_bounds [OF a] and bb = bitlen_pow2_bounds [OF b]
  have up: "x < pow2 (e + 1)"
  proof -
    have "of_int a < pow2 (bitlen a)" by (rule ba(2))
    also have "\<dots> = pow2 (e + 1) * pow2 (bitlen b - 1)"
      by (simp add: pow2_add [symmetric] e_def)
    also have "\<dots> \<le> pow2 (e + 1) * of_int b"
      using bb(1) by (simp add: mult_left_mono less_imp_le)
    finally show ?thesis
      using b by (simp add: x pos_divide_less_eq)
  qed
  have lo: "pow2 (e - 1) < x"
  proof -
    have "pow2 (e - 1) * of_int b < pow2 (e - 1) * pow2 (bitlen b)"
      using bb(2) by (simp add: mult_strict_left_mono)
    also have "\<dots> = pow2 (bitlen a - 1)"
      by (simp add: pow2_add [symmetric] e_def)
    also have "\<dots> \<le> of_int a" by (rule ba(1))
    finally show ?thesis
      using b by (simp add: x pos_less_divide_eq)
  qed
  have i: "ilog2 x = (if pow2 e \<le> x then e else e - 1)"
    by (simp add: ilog2_def q e_def Let_def)
  show ?thesis
  proof (cases "pow2 e \<le> x")
    case True
    with i up show ?thesis by simp
  next
    case False
    with i lo show ?thesis by simp
  qed
qed

lemma ilog2_unique:
  assumes "pow2 k \<le> x" "x < pow2 (k + 1)"
  shows "ilog2 x = k"
proof -
  have "0 < x"
    using assms(1) pow2_pos [of k] by linarith
  from ilog2_bounds [OF this]
  have b: "pow2 (ilog2 x) \<le> x" "x < pow2 (ilog2 x + 1)" by simp_all
  have "pow2 k < pow2 (ilog2 x + 1)"
    using assms(1) b(2) by linarith
  moreover have "pow2 (ilog2 x) < pow2 (k + 1)"
    using assms(2) b(1) by linarith
  ultimately show ?thesis by simp
qed

lemma round_half_even_cases: "round_half_even z = \<lfloor>z\<rfloor> \<or> round_half_even z = \<lfloor>z\<rfloor> + 1"
  by (simp add: round_half_even_def Let_def)

lemma round_half_even_bound:
  assumes "\<bar>z\<bar> < of_int n"
  shows "\<bar>round_half_even z\<bar> \<le> n"
proof -
  have "\<lfloor>z\<rfloor> < n"
    using assms by (simp add: floor_less_iff abs_less_iff)
  moreover have "- n \<le> \<lfloor>z\<rfloor>"
    using assms by (simp add: le_floor_iff abs_less_iff less_imp_le)
  ultimately show ?thesis
    using round_half_even_cases [of z] by auto
qed

lemma round_double_normal:
  assumes "pow2 (e + 52) \<le> \<bar>x\<bar>" "\<bar>x\<bar> < pow2 (e + 53)" "- 1074 \<le> e" "e \<le> 970"
  shows "round_double x = Fin (of_int (round_half_even (x / pow2 e)) * pow2 e)"
proof -
  have "0 < \<bar>x\<bar>"
    using assms(1) pow2_pos [of "e + 52"] by linarith
  then have nz: "x \<noteq> 0" by simp
  have "ilog2 \<bar>x\<bar> = e + 52"
    using assms(1,2) by (intro ilog2_unique) (simp_all add: add.commute add.left_commute)
  then have m: "max (ilog2 \<bar>x\<bar> - 52) (- 1074) = e"
    using assms(3) by simp
  have "\<bar>x / pow2 e\<bar> < pow2 53"
  proof -
    have "\<bar>x\<bar> < pow2 53 * pow2 e"
      using assms(2) by (simp add: pow2_add mult.commute)
    then show ?thesis
      by (simp add: abs_divide pos_divide_less_eq)
  qed
  then have "\<bar>x / pow2 e\<bar> < of_int (2 ^ 53)"
    by (simp add: pow2_def)
  from round_half_even_bound [OF this]
  have "\<bar>of_int (round_half_even (x / pow2 e)) :: rat\<bar> \<le> pow2 53"
    by (simp add: pow2_def flip: of_int_abs)
  then have "\<bar>of_int (round_half_even (x / pow2 e)) * pow2 e\<bar> \<le> pow2 53 * pow2 e"
    by (simp add: abs_mult mult_right_mono)
  also have "\<dots> = pow2 (53 + e)"
    by (simp add: pow2_add)
  also have "\<dots> < pow2 1024"
    using assms(4) by simp
  finally have "\<not> 2 ^ 1024 \<le> \<bar>of_int (round_half_even (x / pow2 e)) * pow2 e\<bar>"
    by (simp add: pow2_def not_le)
  then show ?thesis
    using nz by (simp add: round_double_def m Let_def del: power_numeral_even power_numeral_odd)
qed

lemma round_half_even_eqI:
  assumes "\<bar>z - of_int m\<bar> < 1 / 2 \<or> (\<bar>z - of_int m\<bar> = 1 / 2 \<and> even m)"
  shows "round_half_even z = m"
proof (cases "of_int m \<le> z")
  case True
  with assms have "z < of_int m + 1" by auto
  with True have f: "\<lfloor>z\<rfloor> = m" by (simp add: floor_unique)
  from True assms have "z - of_int m < 1 / 2 \<or> (z - of_int m = 1 / 2 \<and> even m)" by auto
  then show ?thesis
    by (auto simp: round_half_even_def Let_def f)
next
  case False
  with assms have "of_int (m - 1) \<le> z" "z < of_int (m - 1) + 1" by auto
  then have f: "\<lfloor>z\<rfloor> = m - 1" by (rule floor_unique)
  from False assms
  have "1 / 2 < z - of_int (m - 1) \<or> (z - of_int (m - 1) = 1 / 2 \<and> odd (m - 1))" by auto
  then show ?thesis
    by (auto simp: round_half_even_def Let_def f)
qed

lemma round_double_eqI:
  assumes "pow2 (e + 52) \<le> \<bar>x\<bar>" "\<bar>x\<bar> < pow2 (e + 53)" "- 1074 \<le> e" "e \<le> 970"
    and "\<bar>x / pow2 e - of_int m\<bar> < 1 / 2 \<or> (\<bar>x / pow2 e - of_int m\<bar> = 1 / 2 \<and> even m)"
  shows "round_double x = Fin (of_int m * pow2 e)"
  using round_double_normal [OF assms(1-4)] round_half_even_eqI [OF assms(5)] by simp

lemma pow2_neq_0 [simp]: "pow2 e \<noteq> 0"
  using pow2_pos [of e] by linarith

lemma round_half_even_error: "\<bar>z - of_int (round_half_even z)\<bar> \<le> 1 / 2"
proof -
  have "of_int \<lfloor>z\<rfloor> \<le> z" "z < of_int \<lfloor>z\<rfloor> + 1"
    by linarith+
  then show ?thesis
    by (auto simp: round_half_even_def Let_def abs_le_iff)
qed

lemma round_half_even_nonneg: "0 \<le> z \<Longrightarrow> 0 \<le> round_half_even z"
  using round_half_even_cases [of z] by (auto simp: zero_le_floor)

lemma round_double_error:
  assumes "\<bar>x\<bar> < pow2 k" "- 1021 \<le> k" "k \<le> 1023"
  shows "\<exists>y. round_double x = Fin y \<and> \<bar>y - x\<bar> \<le> pow2 (k - 54) \<and> \<bar>y\<bar> \<le> pow2 k
           \<and> (0 \<le> x \<longrightarrow> 0 \<le> y)"
proof (cases "x = 0")
  case True
  have "0 \<le> pow2 (k - 54)" "0 \<le> pow2 k"
    using pow2_pos less_imp_le by blast+
  with True show ?thesis by (simp add: round_double_def)
next
  case False
  define e where "e = max (ilog2 \<bar>x\<bar> - 52) (- 1074)"
  define m where "m = round_half_even (x / pow2 e)"
  define y where "y = of_int m * pow2 e"
  have pos: "0 < \<bar>x\<bar>" using False by simp
  from ilog2_bounds [OF pos] have "pow2 (ilog2 \<bar>x\<bar>) < pow2 k"
    using assms(1) by linarith
  then have "ilog2 \<bar>x\<bar> < k" by simp
  then have e: "e \<le> k - 53"
    using assms(2) by (simp add: e_def)
  have "\<bar>x / pow2 e - of_int m\<bar> \<le> 1 / 2"
    unfolding m_def by (rule round_half_even_error)
  then have "\<bar>x / pow2 e - of_int m\<bar> * pow2 e \<le> 1 / 2 * pow2 e"
    by (intro mult_right_mono) (simp_all add: less_imp_le)
  moreover have "\<bar>x / pow2 e - of_int m\<bar> * pow2 e = \<bar>y - x\<bar>"
  proof -
    have "\<bar>x / pow2 e - of_int m\<bar> * pow2 e = \<bar>(x / pow2 e - of_int m) * pow2 e\<bar>"
      by (simp add: abs_mult)
    also have "(x / pow2 e - of_int m) * pow2 e = x - y"
      by (simp add: y_def field_simps)
    finally show ?thesis by (simp add: abs_minus_commute)
  qed
  moreover have "1 / 2 * pow2 e = pow2 (e - 1)"
    using pow2_add [of e "- 1"] by (simp add: pow2_def)
  moreover have "pow2 (e - 1) \<le> pow2 (k - 54)"
    using e by simp
  ultimately have err: "\<bar>y - x\<bar> \<le> pow2 (k - 54)" by linarith
  have ke: "0 \<le> k - e" using e by simp
  have "\<bar>x / pow2 e\<bar> < pow2 (k - e)"
  proof -
    have "pow2 k = pow2 (k - e) * pow2 e"
      using pow2_add [of "k - e" e] by simp
    with assms(1) show ?thesis
      by (simp add: abs_divide pos_divide_less_eq)
  qed
  also have "pow2 (k - e) = of_int (2 ^ nat (k - e))"
    using ke by (simp add: pow2_nat)
  finally have "\<bar>m\<bar> \<le> 2 ^ nat (k - e)"
    unfolding m_def by (rule round_half_even_bound)
  then have "\<bar>of_int m :: rat\<bar> \<le> of_int (2 ^ nat (k - e))"
    by (simp only: of_int_abs [symmetric] of_int_le_iff)
  also have "of_int (2 ^ nat (k - e)) = pow2 (k - e)"
    using ke by (simp add: pow2_nat)
  finally have "\<bar>of_int m\<bar> * pow2 e \<le> pow2 (k - e) * pow2 e"
    by (intro mult_right_mono) (simp_all add: less_imp_le)
  then have bound: "\<bar>y\<bar> \<le> pow2 k"
    using pow2_add [of "k - e" e] by (simp add: y_def abs_mult)
  have "pow2 k < pow2 1024"
    using assms(3) by simp
  with bound have "\<not> 2 ^ 1024 \<le> \<bar>y\<bar>"
    by (simp add: pow2_def not_le)
  then have r: "round_double x = Fin y"
    using False
    by (simp add: round_double_def Let_def e_def [symmetric] m_def [symmetric]
        y_def [symmetric] del: power_numeral_even power_numeral_odd)
  have "0 \<le> y" if "0 \<le> x"
  proof -
    from that have "0 \<le> x / pow2 e"
      using pow2_pos [of e] by (simp add: less_imp_le)
    then have "0 \<le> m" unfolding m_def by (rule round_half_even_nonneg)
    then show ?thesis
      using pow2_pos [of e] by (simp add: y_def less_imp_le)
  qed
  with r err bound show ?thesis by blast
qed

lemma double_overflow: "round_double (2 ^ 1024) = PInf"
proof -
  have "ilog2 \<bar>2 ^ 1024\<bar> = 1024"
    by (rule ilog2_unique) (simp_all add: pow2_def)
  moreover have "round_half_even (2 ^ 1024 / pow2 972) = 2 ^ 52"
    by (rule round_half_even_eqI) (simp add: pow2_def)
  ultimately show ?thesis
    by (simp add: round_double_def Let_def pow2_def)
qed


section \<open>Properties of the calculator\<close>

lemma getitem_simps:
  "getitem TRS_CUTPOINTS MELD = Inr 20" "getitem TRS_CUTPOINTS SAPS_II = Inr 42"
  "getitem TRS_CUTPOINTS AGE = Inr 52" "getitem TRS_CUTPOINTS PLATELETS = Inr 78"
  "getitem TRS_POINTS MELD = Inr 2" "getitem TRS_POINTS SAPS_II = Inr 1"
  "getitem TRS_POINTS AGE = Inr 1" "getitem TRS_POINTS PLATELETS = Inr 1"
  "getitem TRS_POINTS HCC = Inr 1" "getitem TRS_POINTS CVVHD = Inr 1"
  "getitem TRS_POINTS VHF = Inr 1"
  by (simp_all add: getitem_def TRS_CUTPOINTS_def TRS_POINTS_def)

lemma and_then_simps [simp]:
  "and_then (Inr v) f = f v" "and_then (Inl e) f = Inl e"
  by (simp_all add: and_then_def)

lemma update_fresh: "k \<notin> fst ` set al \<Longrightarrow> AList.update k v al = al @ [(k, v)]"
  by (induction al) auto

lemma keys_entry [simp]: "k \<in> fst ` set (entry c pts v) \<longleftrightarrow> k = c \<and> v \<noteq> None"
  by (cases v) (auto simp: entry_def)

lemma format_fixed_eq:
  "format_fixed digits x = (if too_large (Some x) then Inl OverflowError else Inr ())"
  by (cases x) (auto simp: format_fixed_def too_large_def split: pynum.splits)

lemma too_large_None [simp]: "\<not> too_large None"
  by (simp add: too_large_def)

lemma meld_component_Inl:
  "too_large v \<Longrightarrow> meld_component v s = Inl OverflowError"
  by (cases v) (simp_all add: meld_component_def getitem_simps format_fixed_eq)

lemma meld_component_Inr:
  assumes "MELD \<notin> fst ` set (l_component_scores s)" "\<not> too_large v"
  shows "\<exists>s'. meld_component v s = Inr s'
     \<and> l_total_score s' = l_total_score s + points_above 20 2 v
     \<and> l_component_scores s' = l_component_scores s @ entry MELD (points_above 20 2 v) v
     \<and> l_warnings s' = l_warnings s @ missing_warning ''MELD score missing'' v"
  using assms
  by (cases v)
    (simp_all add: meld_component_def getitem_simps points_above_def missing_warning_def entry_def
      update_fresh format_fixed_eq)

lemma saps_ii_component_Inl:
  "too_large v \<Longrightarrow> saps_ii_component v s = Inl OverflowError"
  by (cases v) (simp_all add: saps_ii_component_def getitem_simps format_fixed_eq)

lemma saps_ii_component_Inr:
  assumes "SAPS_II \<notin> fst ` set (l_component_scores s)" "\<not> too_large v"
  shows "\<exists>s'. saps_ii_component v s = Inr s'
     \<and> l_total_score s' = l_total_score s + points_above 42 1 v
     \<and> l_component_scores s' = l_component_scores s @ entry SAPS_II (points_above 42 1 v) v
     \<and> l_warnings s' = l_warnings s @ missing_warning ''SAPS II score missing'' v"
  using assms
  by (cases v)
    (simp_all add: saps_ii_component_def getitem_simps points_above_def missing_warning_def entry_def
      update_fresh format_fixed_eq)

lemma age_component_Inl:
  "too_large v \<Longrightarrow> age_component v s = Inl OverflowError"
  by (cases v) (simp_all add: age_component_def getitem_simps format_fixed_eq)

lemma age_component_Inr:
  assumes "AGE \<notin> fst ` set (l_component_scores s)" "\<not> too_large v"
  shows "\<exists>s'. age_component v s = Inr s'
     \<and> l_total_score s' = l_total_score s + points_above 52 1 v
     \<and> l_component_scores s' = l_component_scores s @ entry AGE (points_above 52 1 v) v
     \<and> l_warnings s' = l_warnings s @ missing_warning ''Age missing'' v"
  using assms
  by (cases v)
    (simp_all add: age_component_def getitem_simps points_above_def missing_warning_def entry_def
      update_fresh format_fixed_eq)

lemma platelets_component_Inl:
  "too_large v \<Longrightarrow> platelets_component v s = Inl OverflowError"
  by (cases v) (simp_all add: platelets_component_def getitem_simps format_fixed_eq)

lemma platelets_component_Inr:
  assumes "PLATELETS \<notin> fst ` set (l_component_scores s)" "\<not> too_large v"
  shows "\<exists>s'. platelets_component v s = Inr s'
     \<and> l_total_score s' = l_total_score s + points_below 78 1 v
     \<and> l_component_scores s' = l_component_scores s @ entry PLATELETS (points_below 78 1 v) v
     \<and> l_warnings s' = l_warnings s @ missing_warning ''Platelet count missing'' v"
  using assms
  by (cases v)
    (simp_all add: platelets_component_def getitem_simps points_below_def missing_warning_def entry_def
      update_fresh format_fixed_eq)

lemma hcc_component_Inr:
  assumes "HCC \<notin> fst ` set (l_component_scores s)"
  shows "\<exists>s'. hcc_component v s = Inr s'
     \<and> l_total_score s' = l_total_score s + points_flag 1 v
     \<and> l_component_scores s' = l_component_scores s @ entry HCC (points_flag 1 v) v
     \<and> l_warnings s' = l_warnings s @ missing_warning ''HCC status missing'' v"
  using assms
  by (cases v)
    (simp_all add: hcc_component_def getitem_simps points_flag_def missing_warning_def entry_def
      update_fresh)

lemma cvvhd_component_Inr:
  assumes "CVVHD \<notin> fst ` set (l_component_scores s)"
  shows "\<exists>s'. cvvhd_component v s = Inr s'
     \<and> l_total_score s' = l_total_score s + points_flag 1 v
     \<and> l_component_scores s' = l_component_scores s @ entry CVVHD (points_flag 1 v) v
     \<and> l_warnings s' = l_warnings s @ missing_warning ''CVVHD status missing'' v"
  using assms
  by (cases v)
    (simp_all add: cvvhd_component_def getitem_simps points_flag_def missing_warning_def entry_def
      update_fresh)

lemma vhf_component_Inr:
  assumes "VHF \<notin> fst ` set (l_component_scores s)"
  shows "\<exists>s'. vhf_component v s = Inr s'
     \<and> l_total_score s' = l_total_score s + points_flag 1 v
     \<and> l_component_scores s' = l_component_scores s @ entry VHF (points_flag 1 v) v
     \<and> l_warnings s' = l_warnings s @ missing_warning ''Atrial fibrillation status missing'' v"
  using assms
  by (cases v)
    (simp_all add: vhf_component_def getitem_simps points_flag_def missing_warning_def entry_def
      update_fresh)

lemma score_components_Inr:
  assumes "\<not> format_overflow a"
  shows "\<exists>s. score_components a = Inr s
     \<and> l_total_score s = expected_total a
     \<and> l_component_scores s = expected_scores a
     \<and> l_warnings s = expected_missing_warnings a"
proof -
  have f: "\<not> too_large (meld a)" "\<not> too_large (saps_ii a)" "\<not> too_large (age a)"
    "\<not> too_large (platelets a)"
    using assms by (simp_all add: format_overflow_def)
  have "MELD \<notin> fst ` set (l_component_scores initial_locals)"
    by (simp add: initial_locals_def)
  from meld_component_Inr [OF this f(1)]
  obtain s1 where s1: "meld_component (meld a) initial_locals = Inr s1"
      "l_total_score s1 = points_above 20 2 (meld a)"
      "l_component_scores s1 = entry MELD (points_above 20 2 (meld a)) (meld a)"
      "l_warnings s1 = missing_warning ''MELD score missing'' (meld a)"
    by (auto simp: initial_locals_def)
  have "SAPS_II \<notin> fst ` set (l_component_scores s1)"
    by (simp add: s1(3) image_Un)
  from saps_ii_component_Inr [OF this f(2)]
  obtain s2 where s2: "saps_ii_component (saps_ii a) s1 = Inr s2"
      "l_total_score s2 = l_total_score s1 + points_above 42 1 (saps_ii a)"
      "l_component_scores s2 =
         l_component_scores s1 @ entry SAPS_II (points_above 42 1 (saps_ii a)) (saps_ii a)"
      "l_warnings s2 = l_warnings s1 @ missing_warning ''SAPS II score missing'' (saps_ii a)"
    by blast
  have "AGE \<notin> fst ` set (l_component_scores s2)"
    by (simp add: s1(3) s2(3) image_Un)
  from age_component_Inr [OF this f(3)]
  obtain s3 where s3: "age_component (age a) s2 = Inr s3"
      "l_total_score s3 = l_total_score s2 + points_above 52 1 (age a)"
      "l_component_scores s3 =
         l_component_scores s2 @ entry AGE (points_above 52 1 (age a)) (age a)"
      "l_warnings s3 = l_warnings s2 @ missing_warning ''Age missing'' (age a)"
    by blast
  have "PLATELETS \<notin> fst ` set (l_component_scores s3)"
    by (simp add: s1(3) s2(3) s3(3) image_Un)
  from platelets_component_Inr [OF this f(4)]
  obtain s4 where s4: "platelets_component (platelets a) s3 = Inr s4"
      "l_total_score s4 = l_total_score s3 + points_below 78 1 (platelets a)"
      "l_component_scores s4 =
         l_component_scores s3 @ entry PLATELETS (points_below 78 1 (platelets a)) (platelets a)"
      "l_warnings s4 = l_warnings s3 @ missing_warning ''Platelet count missing'' (platelets a)"
    by blast
  have "HCC \<notin> fst ` set (l_component_scores s4)"
    by (simp add: s1(3) s2(3) s3(3) s4(3) image_Un)
  from hcc_component_Inr [OF this, of "hcc a"]
  obtain s5 where s5: "hcc_component (hcc a) s4 = Inr s5"
      "l_total_score s5 = l_total_score s4 + points_flag 1 (hcc a)"
      "l_component_scores s5 =
         l_component_scores s4 @ entry HCC (points_flag 1 (hcc a)) (hcc a)"
      "l_warnings s5 = l_warnings s4 @ missing_warning ''HCC status missing'' (hcc a)"
    by blast
  have "CVVHD \<notin> fst ` set (l_component_scores s5)"
    by (simp add: s1(3) s2(3) s3(3) s4(3) s5(3) image_Un)
  from cvvhd_component_Inr [OF this, of "cvvhd a"]
  obtain s6 where s6: "cvvhd_component (cvvhd a) s5 = Inr s6"
      "l_total_score s6 = l_total_score s5 + points_flag 1 (cvvhd a)"
      "l_component_scores s6 =
         l_component_scores s5 @ entry CVVHD (points_flag 1 (cvvhd a)) (cvvhd a)"
      "l_warnings s6 = l_warnings s5 @ missing_warning ''CVVHD status missing'' (cvvhd a)"
    by blast
  have "VHF \<notin> fst ` set (l_component_scores s6)"
    by (simp add: s1(3) s2(3) s3(3) s4(3) s5(3) s6(3) image_Un)
  from vhf_component_Inr [OF this, of "vhf a"]
  obtain s7 where s7: "vhf_component (vhf a) s6 = Inr s7"
      "l_total_score s7 = l_total_score s6 + points_flag 1 (vhf a)"
      "l_component_scores s7 =
         l_component_scores s6 @ entry VHF (points_flag 1 (vhf a)) (vhf a)"
      "l_warnings s7 = l_warnings s6 @ missing_warning ''Atrial fibrillation status missing'' (vhf a)"
    by blast
  have "score_components a = Inr s7"
    by (simp add: score_components_def s1(1) s2(1) s3(1) s4(1) s5(1) s6(1) s7(1))
  moreover have "l_total_score s7 = expected_total a"
    by (simp add: expected_total_def s1(2) s2(2) s3(2) s4(2) s5(2) s6(2) s7(2))
  moreover have "l_component_scores s7 = expected_scores a"
    by (simp add: expected_scores_def s1(3) s2(3) s3(3) s4(3) s5(3) s6(3) s7(3))
  moreover have "l_warnings s7 = expected_missing_warnings a"
    by (simp add: expected_missing_warnings_def s1(4) s2(4) s3(4) s4(4) s5(4) s6(4) s7(4))
  ultimately show ?thesis by blast
qed

lemma component_Inl_or_Inr:
  "meld_component v s = Inl OverflowError \<or> (\<exists>s'. meld_component v s = Inr s')"
  "saps_ii_component v s = Inl OverflowError \<or> (\<exists>s'. saps_ii_component v s = Inr s')"
  "age_component v s = Inl OverflowError \<or> (\<exists>s'. age_component v s = Inr s')"
  "platelets_component v s = Inl OverflowError \<or> (\<exists>s'. platelets_component v s = Inr s')"
  by (cases v; simp add: meld_component_def saps_ii_component_def age_component_def
      platelets_component_def getitem_simps format_fixed_eq)+

lemma score_components_Inl:
  assumes "format_overflow a"
  shows "score_components a = Inl OverflowError"
proof (cases "meld_component (meld a) initial_locals")
  case (Inl e)
  with component_Inl_or_Inr(1) [of "meld a" initial_locals] show ?thesis
    by (simp add: score_components_def)
next
  case s1: (Inr s1)
  show ?thesis
  proof (cases "saps_ii_component (saps_ii a) s1")
    case (Inl e)
    with component_Inl_or_Inr(2) [of "saps_ii a" s1] s1 show ?thesis
      by (simp add: score_components_def)
  next
    case s2: (Inr s2)
    show ?thesis
    proof (cases "age_component (age a) s2")
      case (Inl e)
      with component_Inl_or_Inr(3) [of "age a" s2] s1 s2 show ?thesis
        by (simp add: score_components_def)
    next
      case s3: (Inr s3)
      have "\<not> too_large (meld a)" "\<not> too_large (saps_ii a)" "\<not> too_large (age a)"
        using s1 s2 s3 meld_component_Inl [of "meld a" initial_locals]
          saps_ii_component_Inl [of "saps_ii a" s1] age_component_Inl [of "age a" s2]
        by auto
      with assms have "too_large (platelets a)"
        by (simp add: format_overflow_def)
      with s1 s2 s3 show ?thesis
        by (simp add: score_components_def platelets_component_Inl)
    qed
  qed
qed


lemma getitem_ranges:
  "getitem VARIABLE_DEFINITIONS MELD = Inr d \<Longrightarrow> vd_range d = Some (6, 40)"
  "getitem VARIABLE_DEFINITIONS SAPS_II = Inr d \<Longrightarrow> vd_range d = Some (0, 163)"
  "getitem VARIABLE_DEFINITIONS AGE = Inr d \<Longrightarrow> vd_range d = Some (18, 80)"
  "getitem VARIABLE_DEFINITIONS PLATELETS = Inr d \<Longrightarrow> vd_range d = Some (10, 500)"
  by (auto simp: getitem_def VARIABLE_DEFINITIONS_def)

lemma getitem_variable_Inr:
  "\<exists>d. getitem VARIABLE_DEFINITIONS MELD = Inr d"
  "\<exists>d. getitem VARIABLE_DEFINITIONS SAPS_II = Inr d"
  "\<exists>d. getitem VARIABLE_DEFINITIONS AGE = Inr d"
  "\<exists>d. getitem VARIABLE_DEFINITIONS PLATELETS = Inr d"
  by (simp_all add: getitem_def VARIABLE_DEFINITIONS_def)

lemma validate_meld_eq:
  "validate_meld v =
     (if outside 6 40 v then Inl (ValueError (Must_be_between MELD 6 40 (the v))) else Inr ())"
  using getitem_variable_Inr(1) getitem_ranges(1)
  by (cases v) (auto simp: validate_meld_def outside_def)

lemma validate_saps_ii_eq:
  "validate_saps_ii v =
     (if outside 0 163 v then Inl (ValueError (Must_be_between SAPS_II 0 163 (the v)))
      else Inr ())"
  using getitem_variable_Inr(2) getitem_ranges(2)
  by (cases v) (auto simp: validate_saps_ii_def outside_def)

lemma validate_age_eq:
  "validate_age v =
     (if outside 18 80 v then Inl (ValueError (Must_be_between AGE 18 80 (the v))) else Inr ())"
  using getitem_variable_Inr(3) getitem_ranges(3)
  by (cases v) (auto simp: validate_age_def outside_def)

lemma validate_platelets_eq:
  "validate_platelets v =
     (if outside 10 500 v then Inl (ValueError (Must_be_between PLATELETS 10 500 (the v)))
      else Inr ())"
  using getitem_variable_Inr(4) getitem_ranges(4)
  by (cases v) (auto simp: validate_platelets_def outside_def)

lemma validate_inputs_fn_Inr: "validate_inputs_fn a = Inr u \<longleftrightarrow> \<not> range_violation a"
  by (simp add: validate_inputs_fn_def range_violation_def validate_meld_eq
      validate_saps_ii_eq validate_age_eq validate_platelets_eq)

lemma validate_inputs_fn_Inl:
  "validate_inputs_fn a = Inl e \<Longrightarrow> \<exists>c lo hi x. e = ValueError (Must_be_between c lo hi x)"
  by (auto simp: validate_inputs_fn_def validate_meld_eq validate_saps_ii_eq validate_age_eq
      validate_platelets_eq split: if_splits)

lemma find_category_eq:
  "find_category RISK_CATEGORIES score =
     (if 0 \<le> score \<and> score \<le> 1 then Some (RISK_CATEGORIES ! 0)
      else if score = 2 then Some (RISK_CATEGORIES ! 1)
      else if 3 \<le> score \<and> score \<le> 8 then Some (RISK_CATEGORIES ! 2)
      else None)"
  by (simp add: RISK_CATEGORIES_def)

lemma determine_risk_category_eq:
  "\<exists>data. determine_risk_category score =
           Inr (if score \<le> 1 then ''LOW'' else if score = 2 then ''MEDIUM'' else ''HIGH'', data)
     \<and> map_of RISK_CATEGORIES
          (if score \<le> 1 then ''LOW'' else if score = 2 then ''MEDIUM'' else ''HIGH'')
         = Some data"
proof -
  have "getitem RISK_CATEGORIES ''LOW'' = Inr (snd (RISK_CATEGORIES ! 0))"
    "getitem RISK_CATEGORIES ''HIGH'' = Inr (snd (RISK_CATEGORIES ! 2))"
    "RISK_CATEGORIES ! 0 = (''LOW'', snd (RISK_CATEGORIES ! 0))"
    "RISK_CATEGORIES ! 1 = (''MEDIUM'', snd (RISK_CATEGORIES ! 1))"
    "RISK_CATEGORIES ! 2 = (''HIGH'', snd (RISK_CATEGORIES ! 2))"
    "map_of RISK_CATEGORIES ''LOW'' = Some (snd (RISK_CATEGORIES ! 0))"
    "map_of RISK_CATEGORIES ''MEDIUM'' = Some (snd (RISK_CATEGORIES ! 1))"
    "map_of RISK_CATEGORIES ''HIGH'' = Some (snd (RISK_CATEGORIES ! 2))"
    by (simp_all add: getitem_def RISK_CATEGORIES_def)
  then show ?thesis
    by (simp add: determine_risk_category_def find_category_eq)
qed

lemma length_check_missing_data: "length (check_missing_data a) = absent_count a"
  by (simp add: check_missing_data_def absent_count_def absent_def split: option.splits)

lemma calculate_score_raises:
  assumes "validate_inputs self" "range_violation a"
  shows "\<exists>c lo hi x. fst (calculate_score self a w) = Inl (ValueError (Must_be_between c lo hi x))"
proof -
  from assms(2) obtain e where e: "validate_inputs_fn a = Inl e"
    using validate_inputs_fn_Inr [of a "()"] by (cases "validate_inputs_fn a") auto
  from validate_inputs_fn_Inl [OF e] obtain c lo hi x
    where "e = ValueError (Must_be_between c lo hi x)" by blast
  with e assms(1) show ?thesis
    by (auto simp: calculate_score_def Let_def split: prod.splits)
qed

lemma in_range_formattable:
  assumes "\<not> outside lo hi v" "- 511 \<le> lo" "hi \<le> 511"
  shows "\<not> too_large v"
proof (cases v)
  case None
  then show ?thesis by simp
next
  case (Some x)
  show ?thesis
  proof (cases x)
    case (Fin q)
    with Some assms(1) have "of_int lo \<le> q" "q \<le> of_int hi"
      by (simp_all add: outside_def py_int_def)
    moreover have "(of_int (- 511) :: rat) \<le> of_int lo" "(of_int hi :: rat) \<le> of_int 511"
      using assms(2,3) by (simp_all only: of_int_le_iff)
    ultimately have "\<bar>q\<bar> < pow2 9"
      by (simp add: pow2_def abs_less_iff)
    from round_double_error [OF this] obtain y where "round_double q = Fin y"
      by auto
    with Some Fin show ?thesis by (simp add: too_large_def)
  qed (simp_all add: Some too_large_def)
qed

lemma overflow_range_violation: "format_overflow a \<Longrightarrow> range_violation a"
  using in_range_formattable [of 6 40 "meld a"] in_range_formattable [of 0 163 "saps_ii a"]
    in_range_formattable [of 18 80 "age a"] in_range_formattable [of 10 500 "platelets a"]
  by (auto simp: format_overflow_def range_violation_def)

lemma calculate_score_overflows:
  assumes "\<not> validate_inputs self" "format_overflow a"
  shows "fst (calculate_score self a w) = Inl OverflowError"
  using assms score_components_Inl [OF assms(2)]
  by (simp add: calculate_score_def Let_def split: prod.splits)

lemma calculate_score_returns:
  assumes "\<not> (validate_inputs self \<and> range_violation a)" "\<not> format_overflow a"
  shows "\<exists>r. fst (calculate_score self a w) = Inr r
     \<and> total_score r = expected_total a
     \<and> component_scores r = expected_scores a
     \<and> warnings r =
         expected_missing_warnings a
         @ (if 2 < absent_count a then [Too_many_missing (absent_count a)] else [])
     \<and> valid r = (absent_count a \<le> 2)
     \<and> risk_category r =
         (if expected_total a \<le> 1 then ''LOW''
          else if expected_total a = 2 then ''MEDIUM'' else ''HIGH'')
     \<and> timestamp r = time_source w (reads w)"
proof -
  obtain s where s: "score_components a = Inr s" "l_total_score s = expected_total a"
      "l_component_scores s = expected_scores a"
      "l_warnings s = expected_missing_warnings a"
    using score_components_Inr [OF assms(2)] by blast
  have v: "(if validate_inputs self then validate_inputs_fn a else Inr ()) = Inr ()"
    using assms(1) validate_inputs_fn_Inr [of a "()"] by simp
  obtain data where d: "determine_risk_category (expected_total a) =
      Inr (if expected_total a \<le> 1 then ''LOW''
           else if expected_total a = 2 then ''MEDIUM'' else ''HIGH'', data)"
    using determine_risk_category_eq [of "expected_total a"] by blast
  show ?thesis
    by (simp add: calculate_score_def Let_def v s d length_check_missing_data
        datetime_now_def not_le split: prod.splits)
qed


lemma map_of_entry:
  "map_of (entry c pts v) k = (if k = c \<and> v \<noteq> None then Some pts else None)"
  by (cases v) (simp_all add: entry_def)

lemma sum_entry: "sum_list (map snd (entry c pts v)) = (if v = None then 0 else pts)"
  by (cases v) (simp_all add: entry_def)

lemma sum_expected_scores: "sum_list (map snd (expected_scores a)) = expected_total a"
  by (simp add: expected_scores_def expected_total_def sum_entry points_above_def
      points_below_def points_flag_def split: option.splits)



lemma map_of_expected_scores:
  "map_of (expected_scores a) MELD = map_option (\<lambda>x. points_above 20 2 (Some x)) (meld a)"
  "map_of (expected_scores a) SAPS_II = map_option (\<lambda>x. points_above 42 1 (Some x)) (saps_ii a)"
  "map_of (expected_scores a) AGE = map_option (\<lambda>x. points_above 52 1 (Some x)) (age a)"
  "map_of (expected_scores a) PLATELETS =
     map_option (\<lambda>x. points_below 78 1 (Some x)) (platelets a)"
  "map_of (expected_scores a) HCC = map_option (\<lambda>x. points_flag 1 (Some x)) (hcc a)"
  "map_of (expected_scores a) CVVHD = map_option (\<lambda>x. points_flag 1 (Some x)) (cvvhd a)"
  "map_of (expected_scores a) VHF = map_option (\<lambda>x. points_flag 1 (Some x)) (vhf a)"
  by (auto simp: expected_scores_def map_of_entry map_add_def split: option.splits)

lemma calculate_score_Inr_iff:
  "(\<exists>r. fst (calculate_score self a w) = Inr r)
     \<longleftrightarrow> \<not> (validate_inputs self \<and> range_violation a) \<and> \<not> format_overflow a"
proof (cases "validate_inputs self \<and> range_violation a")
  case True
  with calculate_score_raises [of self a w] show ?thesis by auto
next
  case False
  show ?thesis
  proof (cases "format_overflow a")
    case True
    then have "range_violation a" by (rule overflow_range_violation)
    with False have "\<not> validate_inputs self" by simp
    from calculate_score_overflows [OF this True, of w] True show ?thesis by simp
  next
    case no: False
    from calculate_score_returns [OF False no, of w] False no show ?thesis by auto
  qed
qed

lemma calculate_score_in_range:
  "\<not> range_violation a \<Longrightarrow> \<exists>r. fst (calculate_score self a w) = Inr r"
  using calculate_score_Inr_iff [of self a w] overflow_range_violation [of a] by auto

lemma calculate_score_Inr_fields:
  assumes "fst (calculate_score self a w) = Inr r"
  shows "total_score r = expected_total a" "component_scores r = expected_scores a"
    "warnings r =
       expected_missing_warnings a
       @ (if 2 < absent_count a then [Too_many_missing (absent_count a)] else [])"
    "valid r = (absent_count a \<le> 2)"
    "risk_category r =
       (if expected_total a \<le> 1 then ''LOW''
        else if expected_total a = 2 then ''MEDIUM'' else ''HIGH'')"
    "timestamp r = time_source w (reads w)"
proof -
  have "\<not> (validate_inputs self \<and> range_violation a)" "\<not> format_overflow a"
    using assms calculate_score_Inr_iff by blast+
  from calculate_score_returns [OF this, of w] assms
  show "total_score r = expected_total a" "component_scores r = expected_scores a"
    "warnings r =
       expected_missing_warnings a
       @ (if 2 < absent_count a then [Too_many_missing (absent_count a)] else [])"
    "valid r = (absent_count a \<le> 2)"
    "risk_category r =
       (if expected_total a \<le> 1 then ''LOW''
        else if expected_total a = 2 then ''MEDIUM'' else ''HIGH'')"
    "timestamp r = time_source w (reads w)"
    by auto
qed


lemma num_simps:
  "num_le (py_int i) (py_int j) = (i \<le> j)" "num_lt (py_int i) (py_int j) = (i < j)"
  "num_gt (py_int i) (py_int j) = (j < i)"
  by (simp_all add: py_int_def num_gt_def)




lemma set_missing_warning:
  "Warning t \<in> set (missing_warning t' v) \<longleftrightarrow> t = t' \<and> v = None"
  by (cases v) (auto simp: missing_warning_def)

lemma calculate_score_Inl:
  assumes "fst (calculate_score self a w) = Inl e"
  shows "range_violation a
       \<and> (if validate_inputs self
          then \<exists>c lo hi x. e = ValueError (Must_be_between c lo hi x)
          else format_overflow a \<and> e = OverflowError)"
proof (cases "validate_inputs self \<and> range_violation a")
  case True
  with calculate_score_raises [of self a w] assms show ?thesis by auto
next
  case False
  have o: "format_overflow a"
    using assms False calculate_score_Inr_iff [of self a w] by (metis sum.distinct(1))
  then have r: "range_violation a" by (rule overflow_range_violation)
  with False have n: "\<not> validate_inputs self" by simp
  from calculate_score_overflows [OF n o, of w] assms r o n show ?thesis by simp
qed

text \<open>
  C2. In a result of \<open>calculate_score\<close>, an absent variable has no item in the
  component-score mapping and has its warning; the total is the sum of the recorded
  component scores, so an absent variable adds nothing; the result is valid iff the
  number of absent variables does not exceed the maximum of 2, and the total is that
  sum all the same. A call raises only for a present value outside its range, never for
  an absent one.
\<close>

theorem calculate_score_missing_values:
  "(\<forall>r. fst (calculate_score self a w) = Inr r \<longrightarrow>
      (meld a = None \<longrightarrow> map_of (component_scores r) MELD = None
         \<and> Warning ''MELD score missing'' \<in> set (warnings r))
    \<and> (saps_ii a = None \<longrightarrow> map_of (component_scores r) SAPS_II = None
         \<and> Warning ''SAPS II score missing'' \<in> set (warnings r))
    \<and> (age a = None \<longrightarrow> map_of (component_scores r) AGE = None
         \<and> Warning ''Age missing'' \<in> set (warnings r))
    \<and> (platelets a = None \<longrightarrow> map_of (component_scores r) PLATELETS = None
         \<and> Warning ''Platelet count missing'' \<in> set (warnings r))
    \<and> (hcc a = None \<longrightarrow> map_of (component_scores r) HCC = None
         \<and> Warning ''HCC status missing'' \<in> set (warnings r))
    \<and> (cvvhd a = None \<longrightarrow> map_of (component_scores r) CVVHD = None
         \<and> Warning ''CVVHD status missing'' \<in> set (warnings r))
    \<and> (vhf a = None \<longrightarrow> map_of (component_scores r) VHF = None
         \<and> Warning ''Atrial fibrillation status missing'' \<in> set (warnings r))
    \<and> total_score r = sum_list (map snd (component_scores r))
    \<and> total_score r =
        points_above 20 2 (meld a) + points_above 42 1 (saps_ii a)
        + points_above 52 1 (age a) + points_below 78 1 (platelets a)
        + points_flag 1 (hcc a) + points_flag 1 (cvvhd a) + points_flag 1 (vhf a)
    \<and> (valid r \<longleftrightarrow> \<not> MAX_MISSING_COMPONENTS < absent_count a))
   \<and> (\<forall>e. fst (calculate_score self a w) = Inl e \<longrightarrow> range_violation a)
   \<and> points_above cutpoint pts None = 0 \<and> points_below cutpoint pts None = 0
   \<and> points_flag pts None = 0 \<and> outside lo hi None = False"
proof -
  have "?thesis" if "fst (calculate_score self a w) = Inl e" for e
    using calculate_score_Inl [OF that] that
    by (simp add: points_above_def points_below_def points_flag_def outside_def
        del: split_paired_Ex)
  moreover have "?thesis" if h: "fst (calculate_score self a w) = Inr r" for r
  proof -
    note f = calculate_score_Inr_fields [OF h]
    have m: "map_of (component_scores r) MELD = map_option (\<lambda>x. points_above 20 2 (Some x)) (meld a)"
      "map_of (component_scores r) SAPS_II = map_option (\<lambda>x. points_above 42 1 (Some x)) (saps_ii a)"
      "map_of (component_scores r) AGE = map_option (\<lambda>x. points_above 52 1 (Some x)) (age a)"
      "map_of (component_scores r) PLATELETS
         = map_option (\<lambda>x. points_below 78 1 (Some x)) (platelets a)"
      "map_of (component_scores r) HCC = map_option (\<lambda>x. points_flag 1 (Some x)) (hcc a)"
      "map_of (component_scores r) CVVHD = map_option (\<lambda>x. points_flag 1 (Some x)) (cvvhd a)"
      "map_of (component_scores r) VHF = map_option (\<lambda>x. points_flag 1 (Some x)) (vhf a)"
      by (simp_all add: f(2) map_of_expected_scores)
    have w: "v = None \<Longrightarrow> Warning t \<in> set (warnings r)"
      if "Warning t \<in> set (expected_missing_warnings a) \<longleftrightarrow> v = None" for t and v :: "'b option"
      using that by (simp add: f(3))
    have ws: "Warning ''MELD score missing'' \<in> set (expected_missing_warnings a) \<longleftrightarrow> meld a = None"
      "Warning ''SAPS II score missing'' \<in> set (expected_missing_warnings a) \<longleftrightarrow> saps_ii a = None"
      "Warning ''Age missing'' \<in> set (expected_missing_warnings a) \<longleftrightarrow> age a = None"
      "Warning ''Platelet count missing'' \<in> set (expected_missing_warnings a)
         \<longleftrightarrow> platelets a = None"
      "Warning ''HCC status missing'' \<in> set (expected_missing_warnings a) \<longleftrightarrow> hcc a = None"
      "Warning ''CVVHD status missing'' \<in> set (expected_missing_warnings a) \<longleftrightarrow> cvvhd a = None"
      "Warning ''Atrial fibrillation status missing'' \<in> set (expected_missing_warnings a)
         \<longleftrightarrow> vhf a = None"
      by (simp_all add: expected_missing_warnings_def set_missing_warning)
    have t: "total_score r = sum_list (map snd (component_scores r))"
      by (simp add: f(1,2) sum_expected_scores)
    have t': "total_score r =
        points_above 20 2 (meld a) + points_above 42 1 (saps_ii a)
        + points_above 52 1 (age a) + points_below 78 1 (platelets a)
        + points_flag 1 (hcc a) + points_flag 1 (cvvhd a) + points_flag 1 (vhf a)"
      by (simp add: f(1) expected_total_def)
    have v: "valid r \<longleftrightarrow> \<not> MAX_MISSING_COMPONENTS < absent_count a"
      by (simp add: f(4) MAX_MISSING_COMPONENTS_def not_less)
    have z: "points_above cutpoint pts None = 0" "points_below cutpoint pts None = 0"
      "points_flag pts None = 0" "outside lo hi None = False"
      by (simp_all add: points_above_def points_below_def points_flag_def outside_def)
    show ?thesis
      using h m w [OF ws(1)] w [OF ws(2)] w [OF ws(3)] w [OF ws(4)] w [OF ws(5)] w [OF ws(6)]
        w [OF ws(7)] t t' v z
      by simp
  qed
  ultimately show ?thesis
    by (cases "fst (calculate_score self a w)") blast+
qed

lemma three_missing_returns:
  "\<exists>r. fst (calculate_score strict_calculator three_missing fresh_world) = Inr r"
  by (rule calculate_score_in_range)
    (simp add: range_violation_def outside_def three_missing_def num_simps)

theorem calculate_score_missing_values_witness:
  "fst (calculate_score strict_calculator three_missing fresh_world)
     = Inr (projr (fst (calculate_score strict_calculator three_missing fresh_world)))
   \<and> map_of (component_scores
        (projr (fst (calculate_score strict_calculator three_missing fresh_world)))) AGE = None
   \<and> Warning ''Age missing''
       \<in> set (warnings (projr (fst (calculate_score strict_calculator three_missing fresh_world))))
   \<and> total_score (projr (fst (calculate_score strict_calculator three_missing fresh_world))) = 4
   \<and> \<not> valid (projr (fst (calculate_score strict_calculator three_missing fresh_world)))"
proof -
  let ?r = "projr (fst (calculate_score strict_calculator three_missing fresh_world))"
  have h: "fst (calculate_score strict_calculator three_missing fresh_world) = Inr ?r"
    using three_missing_returns by auto
  have a: "absent_count three_missing = 3"
    by (simp add: absent_count_def absent_def three_missing_def)
  have fs: "meld three_missing = Some (py_int 25)" "saps_ii three_missing = None"
    "age three_missing = None" "platelets three_missing = Some (py_int 70)"
    "hcc three_missing = Some True" "cvvhd three_missing = None"
    "vhf three_missing = Some False"
    by (simp_all add: three_missing_def)
  from calculate_score_missing_values [of strict_calculator three_missing fresh_world,
      THEN conjunct1, THEN spec, THEN mp, OF h] h a
  show ?thesis
    by (simp add: fs points_above_def points_below_def points_flag_def
        num_simps MAX_MISSING_COMPONENTS_def)
qed


text \<open>
  C6 fails on the code where validation is off: for the int \<open>2^1024\<close> as MELD score, a
  value outside the range 6 to 40, \<open>calculate_score\<close> without validation does not return
  a scored record but raises \<^verbatim>\<open>OverflowError\<close>, when it formats the value for the
  detail line. With validation the same record raises the range error, and without
  validation the value 50, outside the range too, is scored as the claim says: 2 points.
\<close>

theorem calculate_score_overflow_without_validation:
  "\<not> validate_inputs lenient_calculator
   \<and> meld huge_meld = Some (py_int (2 ^ 1024))
   \<and> outside 6 40 (meld huge_meld)
   \<and> fst (calculate_score lenient_calculator huge_meld fresh_world) = Inl OverflowError
   \<and> fst (calculate_score strict_calculator huge_meld fresh_world)
       = Inl (ValueError (Must_be_between MELD 6 40 (py_int (2 ^ 1024))))
   \<and> fst (calculate_score lenient_calculator meld_too_high fresh_world)
       = Inr (projr (fst (calculate_score lenient_calculator meld_too_high fresh_world)))
   \<and> total_score (projr (fst (calculate_score lenient_calculator meld_too_high fresh_world))) = 2"
proof -
  have n: "\<not> validate_inputs lenient_calculator"
    by (simp add: lenient_calculator_def)
  have m: "meld huge_meld = Some (py_int (2 ^ 1024))"
    by (simp add: huge_meld_def)
  have o: "outside 6 40 (meld huge_meld)"
    by (simp add: m outside_def num_simps)
  have "too_large (meld huge_meld)"
    using double_overflow by (simp add: m too_large_def py_int_def)
  then have "format_overflow huge_meld"
    by (simp add: format_overflow_def)
  from calculate_score_overflows [OF n this]
  have 1: "fst (calculate_score lenient_calculator huge_meld fresh_world) = Inl OverflowError" .
  have "validate_inputs_fn huge_meld
      = Inl (ValueError (Must_be_between MELD 6 40 (py_int (2 ^ 1024))))"
    using o by (simp add: validate_inputs_fn_def validate_meld_eq m)
  then have 2: "fst (calculate_score strict_calculator huge_meld fresh_world)
       = Inl (ValueError (Must_be_between MELD 6 40 (py_int (2 ^ 1024))))"
    by (simp add: calculate_score_def strict_calculator_def Let_def split: prod.splits)
  have "\<not> too_large (Some (py_int 50))"
    using in_range_formattable [of 50 50 "Some (py_int 50)"]
    by (simp add: outside_def num_simps)
  then have "\<not> format_overflow meld_too_high"
    by (simp add: format_overflow_def meld_too_high_def)
  from calculate_score_returns [of lenient_calculator meld_too_high fresh_world] n this
  obtain r where r: "fst (calculate_score lenient_calculator meld_too_high fresh_world) = Inr r"
      "total_score r = expected_total meld_too_high"
    by auto
  have "expected_total meld_too_high = 2"
    by (simp add: expected_total_def meld_too_high_def points_above_def points_below_def
        points_flag_def num_simps)
  with r have 3: "fst (calculate_score lenient_calculator meld_too_high fresh_world)
       = Inr (projr (fst (calculate_score lenient_calculator meld_too_high fresh_world)))"
    "total_score (projr (fst (calculate_score lenient_calculator meld_too_high fresh_world))) = 2"
    by simp_all
  from n m o 1 2 3 show ?thesis by blast
qed


lemma outcome_world:
  "outcome (calculate_score self a w) = outcome (calculate_score self a w')"
  by (simp add: outcome_def calculate_score_def datetime_now_def untimed_def Let_def
      split: sum.splits prod.splits)

lemma outcome_logging:
  assumes "validate_inputs self' = validate_inputs self"
  shows "outcome (calculate_score self' (a\<lparr>patient_id := p\<rparr>) w')
     = outcome (calculate_score self a w)"
proof -
  have "validate_inputs_fn (a\<lparr>patient_id := p\<rparr>) = validate_inputs_fn a"
    by (simp add: validate_inputs_fn_def)
  moreover have "score_components (a\<lparr>patient_id := p\<rparr>) = score_components a"
    by (simp add: score_components_def)
  moreover have "check_missing_data (a\<lparr>patient_id := p\<rparr>) = check_missing_data a"
    by (simp add: check_missing_data_def)
  ultimately show ?thesis
    using assms
    by (simp add: outcome_def calculate_score_def datetime_now_def untimed_def Let_def
        split: sum.splits prod.splits)
qed

text \<open>
  C9. Two calls of \<open>calculate_score\<close> with the same record and the same calculator
  return the same result but for the reading of the clock, or raise the same exception,
  whatever the clock and the logger are at each call, also when the second call follows
  the first; so the total score and the component scores are the same. The flag
  \<open>log_calculations\<close> and the patient identifier have no part in the result either.
\<close>

theorem calculate_score_deterministic:
  "outcome (calculate_score self a w) = outcome (calculate_score self a w')
   \<and> outcome (calculate_score self a (snd (calculate_score self a w)))
       = outcome (calculate_score self a w)
   \<and> map_sum id (\<lambda>r. (total_score r, component_scores r)) (fst (calculate_score self a w))
       = map_sum id (\<lambda>r. (total_score r, component_scores r)) (fst (calculate_score self a w'))
   \<and> outcome (calculate_score (self\<lparr>log_calculations := l\<rparr>) (a\<lparr>patient_id := p\<rparr>) w')
       = outcome (calculate_score self a w)"
proof -
  have o: "outcome (calculate_score self a w) = outcome (calculate_score self a v)" for v
    by (rule outcome_world)
  have "map_sum id (\<lambda>r. (total_score r, component_scores r)) (fst (calculate_score self a w))
       = map_sum id (\<lambda>r. (total_score r, component_scores r)) (fst (calculate_score self a w'))"
    using o [of w']
    by (cases "fst (calculate_score self a w)"; cases "fst (calculate_score self a w')")
      (auto simp: outcome_def untimed_def, (metis TRSResult.select_convs TRSResult.surjective TRSResult.update_convs)+)
  with o [of w'] o [of "snd (calculate_score self a w)"]
    outcome_logging [where self' = "self\<lparr>log_calculations := l\<rparr>" and self = self
      and a = a and p = p and w' = w' and w = w]
  show ?thesis by simp
qed


lemma points_bounds:
  "0 \<le> points_above c 2 v" "points_above c 2 v \<le> 2"
  "0 \<le> points_above c 1 v" "points_above c 1 v \<le> 1"
  "0 \<le> points_below c 1 v" "points_below c 1 v \<le> 1"
  "0 \<le> points_flag 1 b" "points_flag 1 b \<le> 1"
  by (simp_all add: points_above_def points_below_def points_flag_def split: option.splits)

lemma expected_total_bounds: "0 \<le> expected_total a" "expected_total a \<le> 8"
proof -
  note b = points_bounds(1,2) [of 20 "meld a"] points_bounds(3,4) [of 42 "saps_ii a"]
    points_bounds(3,4) [of 52 "age a"] points_bounds(5,6) [of 78 "platelets a"]
    points_bounds(7,8) [of "hcc a"] points_bounds(7,8) [of "cvvhd a"]
    points_bounds(7,8) [of "vhf a"]
  show "0 \<le> expected_total a" unfolding expected_total_def using b by linarith
  show "expected_total a \<le> 8" unfolding expected_total_def using b by linarith
qed

text \<open>
  C10. The total of a result of \<open>calculate_score\<close> is the sum of its component scores and
  lies between 0 and 8, the greatest possible score, and its risk category is LOW, MEDIUM
  or HIGH. Every score from 0 to 8 lies in the range of exactly one of the three
  categories (0 to 1, 2 to 2, 3 to 8, in this order) and no other score lies in any; and
  \<open>_determine_risk_category\<close> answers for every integer: LOW up to 1, so below 0 too,
  MEDIUM at 2, HIGH from 3 on, so above 8 too, with the data of that category.
\<close>

theorem calculate_score_total_and_category:
  "(\<forall>r. fst (calculate_score self a w) = Inr r \<longrightarrow>
      total_score r = sum_list (map snd (component_scores r))
      \<and> 0 \<le> total_score r \<and> total_score r \<le> 8
      \<and> risk_category r \<in> {''LOW'', ''MEDIUM'', ''HIGH''}
      \<and> risk_category r
          = (if total_score r \<le> 1 then ''LOW''
             else if total_score r = 2 then ''MEDIUM'' else ''HIGH''))
   \<and> MAX_SCORE = 8
   \<and> map (\<lambda>c. (fst c, rc_range (snd c))) RISK_CATEGORIES
       = [(''LOW'', (0, 1)), (''MEDIUM'', (2, 2)), (''HIGH'', (3, 8))]
   \<and> length (filter (in_category score) RISK_CATEGORIES)
       = (if 0 \<le> score \<and> score \<le> 8 then 1 else 0)
   \<and> (\<exists>data. determine_risk_category score
         = Inr (if score \<le> 1 then ''LOW'' else if score = 2 then ''MEDIUM'' else ''HIGH'', data)
       \<and> map_of RISK_CATEGORIES
            (if score \<le> 1 then ''LOW'' else if score = 2 then ''MEDIUM'' else ''HIGH'')
           = Some data)"
proof -
  have 1: "total_score r = sum_list (map snd (component_scores r))
      \<and> 0 \<le> total_score r \<and> total_score r \<le> 8
      \<and> risk_category r \<in> {''LOW'', ''MEDIUM'', ''HIGH''}
      \<and> risk_category r
          = (if total_score r \<le> 1 then ''LOW''
             else if total_score r = 2 then ''MEDIUM'' else ''HIGH'')"
    if "fst (calculate_score self a w) = Inr r" for r
    using calculate_score_Inr_fields [OF that] expected_total_bounds [of a]
    by (simp add: sum_expected_scores)
  have 2: "MAX_SCORE = 8"
    by (simp add: MAX_SCORE_def TRS_POINTS_def)
  have 3: "map (\<lambda>c. (fst c, rc_range (snd c))) RISK_CATEGORIES
       = [(''LOW'', (0, 1)), (''MEDIUM'', (2, 2)), (''HIGH'', (3, 8))]"
    by (simp add: RISK_CATEGORIES_def)
  have 4: "length (filter (in_category score) RISK_CATEGORIES)
       = (if 0 \<le> score \<and> score \<le> 8 then 1 else 0)"
    by (simp add: RISK_CATEGORIES_def in_category_def)
  from 1 2 3 4 determine_risk_category_eq [of score] show ?thesis
    by blast
qed

theorem calculate_score_total_and_category_witness:
  "total_score (projr (fst (calculate_score strict_calculator three_missing fresh_world)))
     = sum_list (map snd (component_scores
         (projr (fst (calculate_score strict_calculator three_missing fresh_world)))))
   \<and> risk_category (projr (fst (calculate_score strict_calculator three_missing fresh_world)))
       = ''HIGH''
   \<and> length (filter (in_category 2) RISK_CATEGORIES) = 1
   \<and> length (filter (in_category 9) RISK_CATEGORIES) = 0"
proof -
  let ?r = "projr (fst (calculate_score strict_calculator three_missing fresh_world))"
  have h: "fst (calculate_score strict_calculator three_missing fresh_world) = Inr ?r"
    using three_missing_returns by auto
  have t: "total_score ?r = 4"
    using calculate_score_Inr_fields(1) [OF h]
    by (simp add: expected_total_def three_missing_def points_above_def points_below_def
        points_flag_def num_simps)
  from calculate_score_total_and_category
         [of strict_calculator three_missing fresh_world 2, THEN conjunct1, THEN spec, THEN mp,
          OF h]
    calculate_score_total_and_category [of strict_calculator three_missing fresh_world 2]
    calculate_score_total_and_category [of strict_calculator three_missing fresh_world 9] t
  show ?thesis by simp
qed


lemma untimed_error_result: "untimed (error_result e now) = untimed (error_result e 0)"
  by (simp add: untimed_def error_result_def)

lemma untimed_isolated:
  assumes "fst (calculate_score self (batch_args i p) w) = Inr r"
  shows "untimed r = isolated_result self i p"
proof -
  have "outcome (calculate_score self (batch_args i p) fresh_world) = Inr (untimed r)"
    using outcome_world [of self "batch_args i p" fresh_world w] assms
    by (simp add: outcome_def)
  then show ?thesis
    by (cases "fst (calculate_score self (batch_args i p) fresh_world)")
      (simp_all add: outcome_def isolated_result_def)
qed

lemma failed_isolated:
  assumes "fst (calculate_score self (batch_args i p) w) = Inl e"
  shows "untimed (error_result e now) = isolated_result self i p"
proof -
  have "outcome (calculate_score self (batch_args i p) fresh_world) = Inl e"
    using outcome_world [of self "batch_args i p" fresh_world w] assms
    by (simp add: outcome_def)
  then have "isolated_result self i p = untimed (error_result e 0)"
    by (cases "fst (calculate_score self (batch_args i p) fresh_world)")
      (simp_all add: outcome_def isolated_result_def)
  then show ?thesis
    by (simp only: untimed_error_result [of e now])
qed

lemma batch_loop_untimed:
  "map untimed (fst (batch_loop self i ps results w))
     = map untimed results @ map (\<lambda>(j, p). isolated_result self j p) (List.enumerate i ps)"
proof (induction ps arbitrary: i results w)
  case Nil
  then show ?case by simp
next
  case (Cons p rest)
  obtain res w1 where c: "calculate_score self (batch_args i p) w = (res, w1)"
    by (cases "calculate_score self (batch_args i p) w")
  show ?case
  proof (cases res)
    case (Inl e)
    with c have "fst (calculate_score self (batch_args i p) w) = Inl e" by simp
    from failed_isolated [OF this] show ?thesis
      using c Inl Cons.IH by (simp add: Let_def split: prod.splits)
  next
    case (Inr r)
    with c have "fst (calculate_score self (batch_args i p) w) = Inr r" by simp
    from untimed_isolated [OF this] show ?thesis
      using c Inr Cons.IH by simp
  qed
qed

lemma isolated_result_Inl:
  assumes "fst (calculate_score self (batch_args i p) w) = Inl e"
  shows "isolated_result self i p = untimed (error_result e 0)"
  using failed_isolated [OF assms, of 0] by simp

text \<open>
  C7. \<open>calculate_batch\<close> returns one result for each patient of its input, in the order
  of the input, and each is what that patient gets when it is processed alone, whatever
  the other patients are: its result, or, when its calculation raises, the failure entry
  (not valid, total score -1, risk category ERROR, no component score).
\<close>

theorem calculate_batch_isolates_failures:
  "length (fst (calculate_batch self ps w)) = length ps
   \<and> map untimed (fst (calculate_batch self ps w))
       = map (\<lambda>(i, p). isolated_result self i p) (List.enumerate 0 ps)
   \<and> (\<forall>i e w'. i < length ps
         \<and> fst (calculate_score self (batch_args i (ps ! i)) w') = Inl e \<longrightarrow>
         \<not> valid (fst (calculate_batch self ps w) ! i)
         \<and> total_score (fst (calculate_batch self ps w) ! i) = - 1
         \<and> risk_category (fst (calculate_batch self ps w) ! i) = ''ERROR''
         \<and> component_scores (fst (calculate_batch self ps w) ! i) = []
         \<and> warnings (fst (calculate_batch self ps w) ! i) = [Calculation_failed e])
   \<and> (\<forall>i r w'. i < length ps
         \<and> fst (calculate_score self (batch_args i (ps ! i)) w') = Inr r \<longrightarrow>
         untimed (fst (calculate_batch self ps w) ! i) = untimed r)"
proof -
  let ?rs = "fst (calculate_batch self ps w)"
  have m: "map untimed ?rs = map (\<lambda>(i, p). isolated_result self i p) (List.enumerate 0 ps)"
    using batch_loop_untimed [of self 0 ps "[]" w] by (simp add: calculate_batch_def)
  have l: "length ?rs = length ps"
    using arg_cong [OF m, of length] by simp
  have n: "untimed (?rs ! i) = isolated_result self i (ps ! i)" if "i < length ps" for i
  proof -
    have "untimed (?rs ! i) = map untimed ?rs ! i"
      using that l by simp
    also have "\<dots> = isolated_result self i (ps ! i)"
      using that by (simp add: m nth_enumerate_eq)
    finally show ?thesis .
  qed
  have e: "\<not> valid (?rs ! i) \<and> total_score (?rs ! i) = - 1
         \<and> risk_category (?rs ! i) = ''ERROR''
         \<and> component_scores (?rs ! i) = []
         \<and> warnings (?rs ! i) = [Calculation_failed e]"
    if "i < length ps" "fst (calculate_score self (batch_args i (ps ! i)) w') = Inl e"
    for i e w'
  proof -
    have "untimed (?rs ! i) = untimed (error_result e 0)"
      using n [OF that(1)] isolated_result_Inl [OF that(2)] by simp
    then have "valid (untimed (?rs ! i)) = valid (untimed (error_result e 0))"
      "total_score (untimed (?rs ! i)) = total_score (untimed (error_result e 0))"
      "risk_category (untimed (?rs ! i)) = risk_category (untimed (error_result e 0))"
      "component_scores (untimed (?rs ! i)) = component_scores (untimed (error_result e 0))"
      "warnings (untimed (?rs ! i)) = warnings (untimed (error_result e 0))"
      by simp_all
    then show ?thesis by (simp add: untimed_def error_result_def)
  qed
  have r: "untimed (?rs ! i) = untimed r"
    if "i < length ps" "fst (calculate_score self (batch_args i (ps ! i)) w') = Inr r"
    for i r w'
    using n [OF that(1)] untimed_isolated [OF that(2)] by simp
  show ?thesis
  proof (intro conjI allI impI)
    show "length ?rs = length ps" by (rule l)
    show "map untimed ?rs = map (\<lambda>(i, p). isolated_result self i p) (List.enumerate 0 ps)"
      by (rule m)
  qed (use e r in \<open>blast+\<close>)
qed

theorem calculate_batch_isolates_failures_witness:
  "length (fst (calculate_batch strict_calculator [bad_patient, good_patient] fresh_world)) = 2
   \<and> total_score (fst (calculate_batch strict_calculator [bad_patient, good_patient] fresh_world)
        ! 0) = - 1
   \<and> risk_category (fst (calculate_batch strict_calculator [bad_patient, good_patient] fresh_world)
        ! 0) = ''ERROR''
   \<and> \<not> valid (fst (calculate_batch strict_calculator [bad_patient, good_patient] fresh_world) ! 0)
   \<and> total_score (fst (calculate_batch strict_calculator [bad_patient, good_patient] fresh_world)
        ! 1) = 0"
proof -
  let ?ps = "[bad_patient, good_patient]"
  let ?rs = "fst (calculate_batch strict_calculator ?ps fresh_world)"
  note t = calculate_batch_isolates_failures [of strict_calculator ?ps fresh_world]
  have "range_violation (batch_args 0 bad_patient)"
    by (simp add: range_violation_def outside_def batch_args_def bad_patient_def num_simps)
  with calculate_score_raises [of strict_calculator "batch_args 0 bad_patient" fresh_world]
  obtain e where e: "fst (calculate_score strict_calculator (batch_args 0 (?ps ! 0)) fresh_world)
      = Inl e"
    by (auto simp: strict_calculator_def)
  have nr: "\<not> range_violation (batch_args 1 good_patient)"
    by (simp add: range_violation_def outside_def batch_args_def good_patient_def num_simps)
  then have "\<not> format_overflow (batch_args 1 good_patient)"
    using overflow_range_violation by blast
  with nr calculate_score_returns [of strict_calculator "batch_args 1 good_patient" fresh_world]
  obtain r where r: "fst (calculate_score strict_calculator (batch_args 1 (?ps ! 1)) fresh_world)
      = Inr r" "total_score r = expected_total (batch_args 1 good_patient)"
    by auto
  have z: "expected_total (batch_args i good_patient) = 0" for i
    by (simp add: expected_total_def batch_args_def good_patient_def points_above_def
        points_below_def points_flag_def num_simps)
  have 0: "(0::nat) < length ?ps" and 1: "(1::nat) < length ?ps" by simp_all
  from t have l: "length ?rs = length ?ps" by blast
  from t 0 e have f: "\<not> valid (?rs ! 0) \<and> total_score (?rs ! 0) = - 1
      \<and> risk_category (?rs ! 0) = ''ERROR''"
    by blast
  from t 1 r(1) have "untimed (?rs ! 1) = untimed r" by blast
  then have "total_score (untimed (?rs ! 1)) = total_score (untimed r)" by simp
  then have "total_score (?rs ! 1) = 0"
    by (simp add: untimed_def r(2) z)
  with l f show ?thesis by simp
qed


section \<open>The doubles of the literals\<close>

lemma float_lit_754: "float_lit (377 / 500) = Fin (1697857059518677 / 2251799813685248)"
  unfolding float_lit_def
  using round_double_eqI [of "- 53" "377 / 500" "6791428238074708"] by (simp add: pow2_def)

lemma float_lit_761: "float_lit (761 / 1000) = Fin (6854478632857895 / 9007199254740992)"
  unfolding float_lit_def
  using round_double_eqI [of "- 53" "761 / 1000" "6854478632857895"] by (simp add: pow2_def)

lemma float_lit_742: "float_lit (371 / 500) = Fin (835417730877227 / 1125899906842624)"
  unfolding float_lit_def
  using round_double_eqI [of "- 53" "371 / 500" "6683341847017816"] by (simp add: pow2_def)

lemma float_lit_628: "float_lit (157 / 250) = Fin (5656521131977343 / 9007199254740992)"
  unfolding float_lit_def
  using round_double_eqI [of "- 53" "157 / 250" "5656521131977343"] by (simp add: pow2_def)

lemma float_lit_856: "float_lit (107 / 125) = Fin (7710162562058289 / 9007199254740992)"
  unfolding float_lit_def
  using round_double_eqI [of "- 53" "107 / 125" "7710162562058289"] by (simp add: pow2_def)

lemma float_lit_012: "float_lit (3 / 250) = Fin (3458764513820541 / 288230376151711744)"
  unfolding float_lit_def
  using round_double_eqI [of "- 59" "3 / 250" "6917529027641082"] by (simp add: pow2_def)

lemma float_lit_759: "float_lit (759 / 1000) = Fin (6836464234348413 / 9007199254740992)"
  unfolding float_lit_def
  using round_double_eqI [of "- 53" "759 / 1000" "6836464234348413"] by (simp add: pow2_def)

lemma float_lit_745: "float_lit (149 / 200) = Fin (6710363444782039 / 9007199254740992)"
  unfolding float_lit_def
  using round_double_eqI [of "- 53" "149 / 200" "6710363444782039"] by (simp add: pow2_def)

lemma float_lit_631: "float_lit (631 / 1000) = Fin (2841771364870783 / 4503599627370496)"
  unfolding float_lit_def
  using round_double_eqI [of "- 53" "631 / 1000" "5683542729741566"] by (simp add: pow2_def)

lemma float_lit_859: "float_lit (859 / 1000) = Fin (483574009988907 / 562949953421312)"
  unfolding float_lit_def
  using round_double_eqI [of "- 53" "859 / 1000" "7737184159822512"] by (simp add: pow2_def)

lemma float_lit_009: "float_lit (9 / 1000) = Fin (5188146770730811 / 576460752303423488)"
  unfolding float_lit_def
  using round_double_eqI [of "- 59" "9 / 1000" "5188146770730811"] by (simp add: pow2_def)

lemma float_lit_186: "float_lit (93 / 500) = Fin (3350678122763649 / 18014398509481984)"
  unfolding float_lit_def
  using round_double_eqI [of "- 55" "93 / 500" "6701356245527298"] by (simp add: pow2_def)

lemma float_lit_184: "float_lit (23 / 125) = Fin (3314649325744685 / 18014398509481984)"
  unfolding float_lit_def
  using round_double_eqI [of "- 55" "23 / 125" "6629298651489370"] by (simp add: pow2_def)

lemma float_lit_188: "float_lit (47 / 250) = Fin (3386706919782613 / 18014398509481984)"
  unfolding float_lit_def
  using round_double_eqI [of "- 55" "47 / 250" "6773413839565226"] by (simp add: pow2_def)

lemma float_lit_142: "float_lit (71 / 500) = Fin (5116089176692883 / 36028797018963968)"
  unfolding float_lit_def
  using round_double_eqI [of "- 55" "71 / 500" "5116089176692883"] by (simp add: pow2_def)

lemma float_lit_234: "float_lit (117 / 500) = Fin (8430738502437569 / 36028797018963968)"
  unfolding float_lit_def
  using round_double_eqI [of "- 55" "117 / 500" "8430738502437569"] by (simp add: pow2_def)

lemma float_lit_002: "float_lit (1 / 500) = Fin (1152921504606847 / 576460752303423488)"
  unfolding float_lit_def
  using round_double_eqI [of "- 61" "1 / 500" "4611686018427388"] by (simp add: pow2_def)

lemma double_754_minus_012: "round_double (213866939104570115 / 288230376151711744) = Fin (835417730877227 / 1125899906842624)"
  using round_double_eqI [of "- 53" "213866939104570115 / 288230376151711744" "6683341847017816"] by (simp add: pow2_def)

lemma double_754_minus_009: "round_double (429463260466050501 / 576460752303423488) = Fin (6710363444782039 / 9007199254740992)"
  using round_double_eqI [of "- 53" "429463260466050501 / 576460752303423488" "6710363444782039"] by (simp add: pow2_def)

lemma double_186_plus_002: "round_double (108374621433043615 / 576460752303423488) = Fin (3386706919782613 / 18014398509481984)"
  using round_double_eqI [of "- 55" "108374621433043615 / 576460752303423488" "6773413839565226"] by (simp add: pow2_def)


text \<open>
  C3. In \<open>PERFORMANCE_METRICS\<close>, for each of the three metrics, in the order of the
  table, \<^verbatim>\<open>bias_corrected == original - optimism\<close> is true: the subtraction of the
  two doubles gives the very double that the literal of \<^verbatim>\<open>bias_corrected\<close> denotes.
\<close>

theorem performance_metrics_bias_corrected:
  "map (\<lambda>(name, m). (name, num_eq (bias_corrected m) (num_sub (original m) (optimism m))))
     PERFORMANCE_METRICS
   = [(''C_INDEX'', True), (''AUC_60_DAY'', True), (''BRIER_SCORE'', True)]"
proof -
  have "num_sub (float_lit (754 / 1000)) (float_lit (12 / 1000)) = float_lit (742 / 1000)"
    by (simp add: num_sub_def float_lit_754 float_lit_012 float_lit_742 double_754_minus_012)
  moreover
  have "num_sub (float_lit (754 / 1000)) (float_lit (9 / 1000)) = float_lit (745 / 1000)"
    by (simp add: num_sub_def float_lit_754 float_lit_009 float_lit_745 double_754_minus_009)
  moreover
  have "num_sub (float_lit (186 / 1000)) (num_neg (float_lit (2 / 1000)))
      = float_lit (188 / 1000)"
    by (simp add: num_sub_def float_lit_186 float_lit_002 float_lit_188 double_186_plus_002)
  moreover
  have "float_lit (742 / 1000) \<noteq> NaN" "float_lit (745 / 1000) \<noteq> NaN"
    "float_lit (188 / 1000) \<noteq> NaN"
    by (simp_all add: float_lit_742 float_lit_745 float_lit_188)
  ultimately show ?thesis
    by (simp add: PERFORMANCE_METRICS_def num_eq_def
        del: divide_divide_eq_left divide_divide_eq_right)
qed

text \<open>
  C8. In \<open>PERFORMANCE_METRICS\<close>, for each of the three metrics, in the order of the
  table, the bootstrap mean lies in the 95% interval:
  \<^verbatim>\<open>ci_95[0] <= bootstrap_mean <= ci_95[1]\<close> is true.
\<close>

theorem performance_metrics_interval:
  "map (\<lambda>(name, m). (name, num_le (fst (ci_95 m)) (bootstrap_mean m)
                            \<and> num_le (bootstrap_mean m) (snd (ci_95 m))))
     PERFORMANCE_METRICS
   = [(''C_INDEX'', True), (''AUC_60_DAY'', True), (''BRIER_SCORE'', True)]"
  by (simp add: PERFORMANCE_METRICS_def float_lit_628 float_lit_761 float_lit_856
      float_lit_631 float_lit_759 float_lit_859 float_lit_142 float_lit_184 float_lit_234)


section \<open>Properties of the optimal cut-point\<close>

lemma double_half: "round_double (1 / 2) = Fin (1 / 2)"
  using round_double_eqI [of "- 53" "1 / 2" "4503599627370496"] by (simp add: pow2_def)

lemma double_one: "round_double (1) = Fin 1"
  using round_double_eqI [of "- 52" "1" "4503599627370496"] by (simp add: pow2_def)

lemma double_9_10: "round_double (9 / 10) = Fin (8106479329266893 / 9007199254740992)"
  using round_double_eqI [of "- 53" "9 / 10" "8106479329266893"] by (simp add: pow2_def)

lemma double_8_10: "round_double (4 / 5) = Fin (3602879701896397 / 4503599627370496)"
  using round_double_eqI [of "- 53" "4 / 5" "7205759403792794"] by (simp add: pow2_def)

lemma double_7_10: "round_double (7 / 10) = Fin (3152519739159347 / 4503599627370496)"
  using round_double_eqI [of "- 53" "7 / 10" "6305039478318694"] by (simp add: pow2_def)

lemma double_6_10: "round_double (3 / 5) = Fin (5404319552844595 / 9007199254740992)"
  using round_double_eqI [of "- 53" "3 / 5" "5404319552844595"] by (simp add: pow2_def)

lemma double_1_10: "round_double (1 / 10) = Fin (3602879701896397 / 36028797018963968)"
  using round_double_eqI [of "- 56" "1 / 10" "7205759403792794"] by (simp add: pow2_def)

lemma double_minus_1_10: "round_double (- (3602879701896397 / 36028797018963968)) = Fin (- (3602879701896397 / 36028797018963968))"
  using round_double_eqI [of "- 56" "- (3602879701896397 / 36028797018963968)" "- 7205759403792794"] by (simp add: pow2_def)

lemma double_8_10_minus_1_10: "round_double (25220157913274779 / 36028797018963968) = Fin (6305039478318695 / 9007199254740992)"
  using round_double_eqI [of "- 53" "25220157913274779 / 36028797018963968" "6305039478318695"] by (simp add: pow2_def)

lemma double_8_10_minus_1: "round_double (- (900719925474099 / 4503599627370496)) = Fin (- (900719925474099 / 4503599627370496))"
  using round_double_eqI [of "- 55" "- (900719925474099 / 4503599627370496)" "- 7205759403792792"] by (simp add: pow2_def)

lemma double_1_minus_1_10: "round_double (32425917317067571 / 36028797018963968) = Fin (8106479329266893 / 9007199254740992)"
  using round_double_eqI [of "- 53" "32425917317067571 / 36028797018963968" "8106479329266893"] by (simp add: pow2_def)

lemma double_8_10_plus_9_10: "round_double (15312238733059687 / 9007199254740992) = Fin (1914029841632461 / 1125899906842624)"
  using round_double_eqI [of "- 52" "15312238733059687 / 9007199254740992" "7656119366529844"] by (simp add: pow2_def)

lemma double_17_10_minus_1: "round_double (788129934789837 / 1125899906842624) = Fin (788129934789837 / 1125899906842624)"
  using round_double_eqI [of "- 53" "788129934789837 / 1125899906842624" "6305039478318696"] by (simp add: pow2_def)

lemma double_minus_half: "round_double (- (1 / 2)) = Fin (- (1 / 2))"
  using round_double_eqI [of "- 53" "- (1 / 2)" "- 4503599627370496"] by (simp add: pow2_def)

lemma round_double_zero: "round_double 0 = Fin 0"
  by (simp add: round_double_def)



lemma tie_cut_point_value:
  "find_optimal_cut_point tie_fpr tie_tpr tie_thresholds
     = Inr \<lparr>optimal_idx = 1, optimal_threshold = float_lit (9 / 10), sensitivity = Fin (1 / 2),
            specificity = Fin 1, youden_index = Fin (1 / 2)\<rparr>"
  by (simp add: find_optimal_cut_point_def tie_fpr_def tie_tpr_def tie_thresholds_def
      np_subtract_def argmax_def getindex_def num_sub_def float_lit_def py_int_def
      round_double_zero double_half double_one double_9_10 double_8_10 double_7_10 double_6_10
      double_minus_half)

lemma rounding_cut_point_value:
  "find_optimal_cut_point rounding_fpr rounding_tpr rounding_thresholds
    = Inr \<lparr>optimal_idx = 2, optimal_threshold = Fin (1 / 2), sensitivity = float_lit (8 / 10),
            specificity = Fin (8106479329266893 / 9007199254740992),
            youden_index = Fin (6305039478318695 / 9007199254740992)\<rparr>"
  by (simp add: find_optimal_cut_point_def rounding_fpr_def rounding_tpr_def
      rounding_thresholds_def
      np_subtract_def argmax_def getindex_def num_sub_def float_lit_def py_int_def
      round_double_zero double_half double_one double_1_10 double_8_10 double_minus_1_10
      double_8_10_minus_1_10 double_8_10_minus_1 double_1_minus_1_10)

lemma double_two: "round_double 2 = Fin 2"
  using round_double_eqI [of "- 51" "2" "4503599627370496"] by (simp add: pow2_def)

lemma double_minus_one: "round_double (- 1) = Fin (- 1)"
  using round_double_eqI [of "- 52" "- 1" "- 4503599627370496"] by (simp add: pow2_def)

lemma round_double_unit:
  assumes "\<bar>x\<bar> \<le> 1"
  shows "\<exists>y. round_double x = Fin y \<and> \<bar>y - x\<bar> \<le> 1 / 2 ^ 54 \<and> \<bar>y\<bar> \<le> 1 \<and> (0 \<le> x \<longrightarrow> 0 \<le> y)"
proof (cases "\<bar>x\<bar> = 1")
  case True
  then consider "x = 1" | "x = - 1" by (auto simp: abs_if split: if_splits)
  then show ?thesis
    by cases (simp_all add: double_one double_minus_one)
next
  case False
  with assms have "\<bar>x\<bar> < pow2 0" by (simp add: pow2_def)
  from round_double_error [OF this] show ?thesis
    by (simp add: pow2_def)
qed

lemma round_double_two:
  assumes "0 \<le> x" "x \<le> 2"
  shows "\<exists>y. round_double x = Fin y \<and> \<bar>y - x\<bar> \<le> 1 / 2 ^ 53 \<and> 0 \<le> y \<and> y \<le> 2"
proof (cases "x = 2")
  case True
  then show ?thesis by (simp add: double_two)
next
  case False
  with assms have "\<bar>x\<bar> < pow2 1" by (simp add: pow2_def)
  from round_double_error [OF this] assms(1) show ?thesis
    by (auto simp: pow2_def)
qed

lemma round_double_not_NaN [simp]: "round_double x \<noteq> NaN"
  by (simp add: round_double_def Let_def)

lemma num_sub_finite: "finite_num a \<Longrightarrow> finite_num b \<Longrightarrow> num_sub a b \<noteq> NaN"
  by (cases a; cases b) (simp_all add: finite_num_def num_sub_def)

lemma num_le_refl: "x \<noteq> NaN \<Longrightarrow> num_le x x"
  by (cases x) simp_all

lemma not_num_le: "x \<noteq> NaN \<Longrightarrow> y \<noteq> NaN \<Longrightarrow> (\<not> num_le x y) = num_lt y x"
  by (cases x; cases y) auto

lemma num_lt_imp_le: "num_lt x y \<Longrightarrow> num_le x y"
  by (cases x; cases y) auto

lemma num_le_lt_trans: "num_le x y \<Longrightarrow> num_lt y z \<Longrightarrow> num_lt x z"
  by (cases x; cases y; cases z) auto

lemma num_lt_irrefl: "\<not> num_lt x x"
  by (cases x) simp_all

lemma argmax_loop_first_maximum:
  assumes "NaN \<notin> set pre" "NaN \<notin> set xs" "max_ind < length pre" "mp = pre ! max_ind"
    and "\<forall>j<length pre. num_le (pre ! j) mp" "\<forall>j<max_ind. num_lt (pre ! j) mp"
  shows "argmax_loop mp max_ind (length pre) xs < length (pre @ xs)
     \<and> (\<forall>j<length (pre @ xs).
           num_le ((pre @ xs) ! j) ((pre @ xs) ! argmax_loop mp max_ind (length pre) xs))
     \<and> (\<forall>j<argmax_loop mp max_ind (length pre) xs.
           num_lt ((pre @ xs) ! j) ((pre @ xs) ! argmax_loop mp max_ind (length pre) xs))"
  using assms
proof (induction xs arbitrary: pre mp max_ind)
  case Nil
  then show ?case by simp
next
  case (Cons x xs)
  let ?pre = "pre @ [x]"
  have x: "x \<noteq> NaN" using Cons.prems(2) by auto
  have mp: "mp \<noteq> NaN" using Cons.prems(1,3,4) by (metis nth_mem)
  have n: "NaN \<notin> set ?pre" "NaN \<notin> set xs"
    using Cons.prems(1,2) by auto
  have a: "?pre @ xs = pre @ x # xs" by simp
  show ?case
  proof (cases "num_le x mp")
    case True
    have 1: "max_ind < length ?pre" using Cons.prems(3) by simp
    have 2: "mp = ?pre ! max_ind" using Cons.prems(3,4) by (simp add: nth_append)
    have 3: "\<forall>j<length ?pre. num_le (?pre ! j) mp"
      using Cons.prems(5) True by (auto simp: nth_append less_Suc_eq)
    have 4: "\<forall>j<max_ind. num_lt (?pre ! j) mp"
      using Cons.prems(3,6) by (auto simp: nth_append)
    have e: "argmax_loop mp max_ind (length pre) (x # xs)
        = argmax_loop mp max_ind (length ?pre) xs"
      using True by simp
    show ?thesis
      unfolding e using Cons.IH [OF n 1 2 3 4] unfolding a .
  next
    case False
    then have lt: "num_lt mp x" using not_num_le [OF x mp] by simp
    have 1: "length pre < length ?pre" by simp
    have 2: "x = ?pre ! length pre" by simp
    have 3: "\<forall>j<length ?pre. num_le (?pre ! j) x"
      using Cons.prems(5) lt num_le_refl [OF x]
      by (auto simp: nth_append less_Suc_eq intro: num_lt_imp_le num_le_lt_trans)
    have 4: "\<forall>j<length pre. num_lt (?pre ! j) x"
      using Cons.prems(5) lt by (auto simp: nth_append intro: num_le_lt_trans)
    have e: "argmax_loop mp max_ind (length pre) (x # xs)
        = argmax_loop x (length pre) (length ?pre) xs"
      using False x by simp
    show ?thesis
      unfolding e using Cons.IH [OF n 1 2 3 4] unfolding a .
  qed
qed

lemma argmax_first_maximum:
  assumes "ys \<noteq> []" "NaN \<notin> set ys"
  shows "\<exists>r. argmax ys = Inr r \<and> r < length ys
     \<and> (\<forall>j<length ys. num_le (ys ! j) (ys ! r))
     \<and> (\<forall>j<r. num_lt (ys ! j) (ys ! r))"
proof -
  obtain y rest where ys: "ys = y # rest"
    using assms(1) by (cases ys) auto
  have y: "y \<noteq> NaN" "NaN \<notin> set rest"
    using assms(2) ys by auto
  have "argmax ys = Inr (argmax_loop y 0 (length [y]) rest)"
    using y by (simp add: argmax_def ys)
  moreover have "NaN \<notin> set [y]" "0 < length [y]" "y = [y] ! 0"
    "\<forall>j<length [y]. num_le ([y] ! j) y" "\<forall>j<0. num_lt ([y] ! j) y"
    using y num_le_refl [of y] by simp_all
  from argmax_loop_first_maximum [OF this(1) y(2) this(2-5)]
  have "argmax_loop y 0 (length [y]) rest < length ys
     \<and> (\<forall>j<length ys. num_le (ys ! j) (ys ! argmax_loop y 0 (length [y]) rest))
     \<and> (\<forall>j<argmax_loop y 0 (length [y]) rest.
           num_lt (ys ! j) (ys ! argmax_loop y 0 (length [y]) rest))"
    by (simp add: ys)
  ultimately show ?thesis by blast
qed

text \<open>
  C4, as amended. On the arrays of \<^verbatim>\<open>roc_curve\<close> (one length, not empty, finite
  rates, thresholds in decreasing order) the selection returns the first operating point
  of the greatest Youden index: every point has a Youden index at most the selected one,
  every earlier point a smaller one, and every point of the same Youden index has a
  threshold at most the selected one. Among thresholds that tie, the selected one is
  the largest.
\<close>

theorem optimal_cut_point_largest_threshold:
  assumes "length fpr = length tpr" "length thresholds = length tpr" "tpr \<noteq> []"
    and "\<forall>x\<in>set fpr \<union> set tpr. finite_num x"
    and "sorted_wrt (\<lambda>a b. num_lt b a) thresholds" "NaN \<notin> set thresholds"
  shows "\<exists>c. find_optimal_cut_point fpr tpr thresholds = Inr c
     \<and> optimal_idx c < length tpr
     \<and> optimal_threshold c = thresholds ! optimal_idx c
     \<and> youden_index c = num_sub (tpr ! optimal_idx c) (fpr ! optimal_idx c)
     \<and> (\<forall>j<length tpr. num_le (num_sub (tpr ! j) (fpr ! j)) (youden_index c))
     \<and> (\<forall>j<optimal_idx c. num_lt (num_sub (tpr ! j) (fpr ! j)) (youden_index c))
     \<and> (\<forall>j<length tpr. num_eq (num_sub (tpr ! j) (fpr ! j)) (youden_index c) \<longrightarrow>
           num_le (thresholds ! j) (optimal_threshold c))"
proof -
  define ys where "ys = map2 num_sub tpr fpr"
  have l: "length ys = length tpr"
    using assms(1) by (simp add: ys_def)
  have nth: "ys ! j = num_sub (tpr ! j) (fpr ! j)" if "j < length tpr" for j
    using that assms(1) by (simp add: ys_def)
  have "ys ! j \<noteq> NaN" if "j < length ys" for j
  proof -
    from that l have j: "j < length tpr" "j < length fpr" using assms(1) by simp_all
    then have "finite_num (tpr ! j)" "finite_num (fpr ! j)"
      using assms(4) by (auto simp: nth_mem)
    then show ?thesis
      using nth [OF j(1)] by (simp add: num_sub_finite)
  qed
  then have nan: "NaN \<notin> set ys"
    by (metis in_set_conv_nth)
  have ne: "ys \<noteq> []"
    using l assms(3) by auto
  from argmax_first_maximum [OF ne nan]
  obtain r where r: "argmax ys = Inr r" "r < length ys"
      "\<forall>j<length ys. num_le (ys ! j) (ys ! r)" "\<forall>j<r. num_lt (ys ! j) (ys ! r)"
    by blast
  let ?c = "\<lparr>optimal_idx = r, optimal_threshold = thresholds ! r, sensitivity = tpr ! r,
            specificity = num_sub (py_int 1) (fpr ! r), youden_index = ys ! r\<rparr>"
  have f: "find_optimal_cut_point fpr tpr thresholds = Inr ?c"
    using r(1,2) l assms(1,2)
    by (simp add: find_optimal_cut_point_def np_subtract_def getindex_def ys_def)
  have rt: "r < length tpr" using r(2) l by simp
  have tie: "num_le (thresholds ! j) (thresholds ! r)"
    if j: "j < length tpr" and e: "num_eq (ys ! j) (ys ! r)" for j
  proof -
    have "\<not> j < r"
      using r(4) e num_lt_irrefl by (auto simp: num_eq_def)
    then consider "j = r" | "r < j" by linarith
    then show ?thesis
    proof cases
      case 1
      have "thresholds ! r \<noteq> NaN"
        using assms(2,6) rt by (metis nth_mem)
      with 1 show ?thesis by (simp add: num_le_refl)
    next
      case 2
      with assms(5) j assms(2) have "num_lt (thresholds ! j) (thresholds ! r)"
        by (simp add: sorted_wrt_iff_nth_less)
      then show ?thesis by (rule num_lt_imp_le)
    qed
  qed
  have "optimal_idx ?c < length tpr" using rt by simp
  moreover have "youden_index ?c = num_sub (tpr ! optimal_idx ?c) (fpr ! optimal_idx ?c)"
    using nth [OF rt] by simp
  moreover have "\<forall>j<length tpr. num_le (num_sub (tpr ! j) (fpr ! j)) (youden_index ?c)"
    using r(3) l nth by simp
  moreover have "\<forall>j<optimal_idx ?c. num_lt (num_sub (tpr ! j) (fpr ! j)) (youden_index ?c)"
    using r(4) rt nth by simp
  moreover have "\<forall>j<length tpr. num_eq (num_sub (tpr ! j) (fpr ! j)) (youden_index ?c) \<longrightarrow>
           num_le (thresholds ! j) (optimal_threshold ?c)"
    using tie nth by simp
  ultimately show ?thesis
    using f by (intro exI [of _ ?c]) simp
qed

text \<open>
  C4, as stated, fails: for the labels \<^verbatim>\<open>[1, 0, 1, 0]\<close> with the scores
  \<^verbatim>\<open>[0.9, 0.8, 0.7, 0.6]\<close> the thresholds 0.9 (index 1) and 0.7 (index 3) both have
  the greatest Youden index 0.5, and the selection takes index 1, the threshold 0.9,
  which is not the smallest of the two.
\<close>

theorem tie_takes_larger_threshold:
  "find_optimal_cut_point tie_fpr tie_tpr tie_thresholds
     = Inr \<lparr>optimal_idx = 1, optimal_threshold = float_lit (9 / 10), sensitivity = Fin (1 / 2),
            specificity = Fin 1, youden_index = Fin (1 / 2)\<rparr>
   \<and> map2 num_sub tie_tpr tie_fpr = [Fin 0, Fin (1 / 2), Fin 0, Fin (1 / 2), Fin 0]
   \<and> tie_thresholds ! 3 = float_lit (7 / 10)
   \<and> num_lt (float_lit (7 / 10)) (float_lit (9 / 10))"
proof -
  have "map2 num_sub tie_tpr tie_fpr = [Fin 0, Fin (1 / 2), Fin 0, Fin (1 / 2), Fin 0]"
    by (simp add: tie_tpr_def tie_fpr_def num_sub_def round_double_zero double_half)
  moreover have "tie_thresholds ! 3 = float_lit (7 / 10)"
    by (simp add: tie_thresholds_def)
  moreover have "num_lt (float_lit (7 / 10)) (float_lit (9 / 10))"
    by (simp add: float_lit_def double_7_10 double_9_10)
  ultimately show ?thesis
    using tie_cut_point_value by simp
qed

theorem optimal_cut_point_largest_threshold_witness:
  "length tie_fpr = length tie_tpr \<and> length tie_thresholds = length tie_tpr \<and> tie_tpr \<noteq> []
   \<and> sorted_wrt (\<lambda>a b. num_lt b a) tie_thresholds
   \<and> optimal_idx (projr (find_optimal_cut_point tie_fpr tie_tpr tie_thresholds)) = 1
   \<and> num_le (tie_thresholds ! 3)
        (optimal_threshold (projr (find_optimal_cut_point tie_fpr tie_tpr tie_thresholds)))"
proof -
  have h: "length tie_fpr = length tie_tpr" "length tie_thresholds = length tie_tpr"
    "tie_tpr \<noteq> []" "\<forall>x\<in>set tie_fpr \<union> set tie_tpr. finite_num x"
    "sorted_wrt (\<lambda>a b. num_lt b a) tie_thresholds" "NaN \<notin> set tie_thresholds"
    by (simp_all add: tie_fpr_def tie_tpr_def tie_thresholds_def finite_num_def float_lit_def
        double_9_10 double_8_10 double_7_10 double_6_10)
  from optimal_cut_point_largest_threshold [OF h]
  obtain c where c: "find_optimal_cut_point tie_fpr tie_tpr tie_thresholds = Inr c"
    "\<forall>j<length tie_tpr. num_eq (num_sub (tie_tpr ! j) (tie_fpr ! j)) (youden_index c) \<longrightarrow>
        num_le (tie_thresholds ! j) (optimal_threshold c)"
    by blast
  have v: "c = \<lparr>optimal_idx = 1, optimal_threshold = float_lit (9 / 10),
      sensitivity = Fin (1 / 2), specificity = Fin 1, youden_index = Fin (1 / 2)\<rparr>"
    using c(1) tie_cut_point_value by simp
  have "num_eq (num_sub (tie_tpr ! 3) (tie_fpr ! 3)) (youden_index c)"
    by (simp add: v tie_tpr_def tie_fpr_def num_sub_def num_eq_def double_half)
  moreover have "(3::nat) < length tie_tpr" by (simp add: tie_tpr_def)
  ultimately have "num_le (tie_thresholds ! 3) (optimal_threshold c)"
    using c(2) by blast
  with h c(1) v show ?thesis by simp
qed

lemma cut_point_fields:
  assumes "find_optimal_cut_point fpr tpr thresholds = Inr c"
  shows "optimal_idx c < length tpr \<and> optimal_idx c < length fpr
     \<and> optimal_idx c < length thresholds
     \<and> optimal_threshold c = thresholds ! optimal_idx c
     \<and> sensitivity c = tpr ! optimal_idx c
     \<and> specificity c = num_sub (py_int 1) (fpr ! optimal_idx c)
     \<and> youden_index c = num_sub (tpr ! optimal_idx c) (fpr ! optimal_idx c)"
proof -
  obtain ys where ys: "np_subtract tpr fpr = Inr ys"
    using assms by (cases "np_subtract tpr fpr") (simp_all add: find_optimal_cut_point_def)
  obtain r where r: "argmax ys = Inr r"
    using assms ys by (cases "argmax ys") (simp_all add: find_optimal_cut_point_def)
  have b: "r < length thresholds" "r < length tpr" "r < length fpr" "r < length ys"
    using assms ys r
    by (simp_all add: find_optimal_cut_point_def getindex_def split: if_splits)
  have c: "c = \<lparr>optimal_idx = r, optimal_threshold = thresholds ! r, sensitivity = tpr ! r,
      specificity = num_sub (py_int 1) (fpr ! r), youden_index = ys ! r\<rparr>"
    using assms ys r b by (simp add: find_optimal_cut_point_def getindex_def)
  have hd: "hd xs = xs ! 0" if "length xs = 1" for xs :: "pynum list"
    using that by (cases xs) simp_all
  have "ys ! r = num_sub (tpr ! r) (fpr ! r)"
    using ys b by (auto simp: np_subtract_def hd split: if_splits)
  with b c show ?thesis by simp
qed

text \<open>
  C5, as stated, fails: for ten positive and ten negative cases where the selected
  operating point has the rates 0.8 and 0.1, \<^verbatim>\<open>youden_index\<close> is the double nearest
  to 0.8 - 0.1, that is 0.7000000000000001, while
  \<^verbatim>\<open>sensitivity + specificity - 1\<close> evaluates to 0.7000000000000002.
\<close>

theorem rounding_breaks_youden_identity:
  "find_optimal_cut_point rounding_fpr rounding_tpr rounding_thresholds
     = Inr \<lparr>optimal_idx = 2, optimal_threshold = Fin (1 / 2), sensitivity = float_lit (8 / 10),
            specificity = Fin (8106479329266893 / 9007199254740992),
            youden_index = Fin (6305039478318695 / 9007199254740992)\<rparr>
   \<and> num_sub (num_add (float_lit (8 / 10)) (Fin (8106479329266893 / 9007199254740992)))
        (py_int 1)
      = Fin (788129934789837 / 1125899906842624)
   \<and> \<not> youden_identity
         \<lparr>optimal_idx = 2, optimal_threshold = Fin (1 / 2), sensitivity = float_lit (8 / 10),
          specificity = Fin (8106479329266893 / 9007199254740992),
          youden_index = Fin (6305039478318695 / 9007199254740992)\<rparr>"
proof -
  have s: "num_sub (num_add (float_lit (8 / 10)) (Fin (8106479329266893 / 9007199254740992)))
        (py_int 1)
      = Fin (788129934789837 / 1125899906842624)"
    by (simp add: float_lit_def num_sub_def py_int_def double_8_10 double_8_10_plus_9_10
        double_17_10_minus_1)
  then show ?thesis
    using rounding_cut_point_value by (simp add: youden_identity_def num_eq_def)
qed

text \<open>
  C5, as amended. Every output of the selection has the sensitivity \<open>tpr\<close>, the
  specificity \<open>1 - fpr\<close> and the Youden index \<open>tpr - fpr\<close> of the selected operating
  point, each difference rounded to the nearest double.
  \<^verbatim>\<open>youden_index == sensitivity + specificity - 1\<close> is true whenever \<open>1 - fpr\<close>,
  \<open>tpr + (1 - fpr)\<close> and \<open>tpr - fpr\<close> are doubles, so that nothing is rounded; and for
  rates between 0 and 1 the two sides are within \<open>5 / 2^54\<close> of each other, the Youden
  index within \<open>1 / 2^54\<close> of \<open>tpr - fpr\<close>.
\<close>

theorem youden_identity_up_to_rounding:
  assumes "find_optimal_cut_point fpr tpr thresholds = Inr c"
    and "tpr ! optimal_idx c = Fin t" "fpr ! optimal_idx c = Fin f"
  shows "sensitivity c = Fin t \<and> specificity c = round_double (1 - f)
     \<and> youden_index c = round_double (t - f)
     \<and> (exact (1 - f) \<and> exact (t + (1 - f)) \<and> exact (t - f) \<longrightarrow> youden_identity c)
     \<and> (0 \<le> t \<and> t \<le> 1 \<and> 0 \<le> f \<and> f \<le> 1 \<longrightarrow>
          (\<exists>y v. youden_index c = Fin y
             \<and> num_sub (num_add (sensitivity c) (specificity c)) (py_int 1) = Fin v
             \<and> \<bar>y - (t - f)\<bar> \<le> 1 / 2 ^ 54 \<and> \<bar>v - y\<bar> \<le> 5 / 2 ^ 54))"
proof -
  note c = cut_point_fields [OF assms(1)]
  have s: "sensitivity c = Fin t" using c assms(2) by simp
  have p: "specificity c = round_double (1 - f)"
    using c assms(3) by (simp add: num_sub_def py_int_def)
  have y: "youden_index c = round_double (t - f)"
    using c assms(2,3) by (simp add: num_sub_def)
  have "youden_identity c" if e: "exact (1 - f)" "exact (t + (1 - f))" "exact (t - f)"
  proof -
    have "t + (1 - f) - 1 = t - f" by simp
    then have "num_sub (num_add (sensitivity c) (specificity c)) (py_int 1) = Fin (t - f)"
      using e by (simp add: s p exact_def num_sub_def py_int_def)
    then show ?thesis
      using e(3) by (simp add: youden_identity_def y exact_def num_eq_def)
  qed
  moreover have "\<exists>y v. youden_index c = Fin y
             \<and> num_sub (num_add (sensitivity c) (specificity c)) (py_int 1) = Fin v
             \<and> \<bar>y - (t - f)\<bar> \<le> 1 / 2 ^ 54 \<and> \<bar>v - y\<bar> \<le> 5 / 2 ^ 54"
    if b: "0 \<le> t" "t \<le> 1" "0 \<le> f" "f \<le> 1"
  proof -
    define eps :: rat where "eps = 1 / 2 ^ 54"
    have eps2: "1 / 2 ^ 53 = 2 * eps" "5 / 2 ^ 54 = 5 * eps"
      by (simp_all add: eps_def)
    have "\<bar>1 - f\<bar> \<le> 1" using b by (simp add: abs_le_iff)
    from round_double_unit [OF this, folded eps_def] b
    obtain s' where s': "round_double (1 - f) = Fin s'" "\<bar>s' - (1 - f)\<bar> \<le> eps"
        "\<bar>s'\<bar> \<le> 1" "0 \<le> s'"
      by auto
    have "0 \<le> t + s'" "t + s' \<le> 2" using b s'(3,4) by (simp_all add: abs_le_iff)
    from round_double_two [OF this, unfolded eps2]
    obtain u where u: "round_double (t + s') = Fin u" "\<bar>u - (t + s')\<bar> \<le> 2 * eps"
        "0 \<le> u" "u \<le> 2"
      by blast
    have "\<bar>u - 1\<bar> \<le> 1" using u(3,4) by (simp add: abs_le_iff)
    from round_double_unit [OF this, folded eps_def]
    obtain v where v: "round_double (u - 1) = Fin v" "\<bar>v - (u - 1)\<bar> \<le> eps"
      by blast
    have "\<bar>t - f\<bar> \<le> 1" using b by (simp add: abs_le_iff)
    from round_double_unit [OF this, folded eps_def]
    obtain y' where y': "round_double (t - f) = Fin y'" "\<bar>y' - (t - f)\<bar> \<le> eps"
      by blast
    have "num_sub (num_add (sensitivity c) (specificity c)) (py_int 1) = Fin v"
      by (simp add: s p s'(1) u(1) v(1) num_sub_def py_int_def)
    moreover have "\<bar>v - y'\<bar> \<le> 5 * eps"
      using s'(2) u(2) v(2) y'(2) by linarith
    moreover have "youden_index c = Fin y'"
      using y y'(1) by simp
    ultimately show ?thesis
      using y'(2) unfolding eps2 eps_def [symmetric] by blast
  qed
  ultimately show ?thesis
    using s p y by blast
qed

theorem youden_identity_up_to_rounding_witness:
  "find_optimal_cut_point tie_fpr tie_tpr tie_thresholds
     = Inr (projr (find_optimal_cut_point tie_fpr tie_tpr tie_thresholds))
   \<and> exact (1 - 0) \<and> exact (1 / 2 + (1 - 0)) \<and> exact (1 / 2 - 0)
   \<and> youden_identity (projr (find_optimal_cut_point tie_fpr tie_tpr tie_thresholds))
   \<and> (\<exists>y v. youden_index (projr (find_optimal_cut_point tie_fpr tie_tpr tie_thresholds)) = Fin y
         \<and> num_sub (num_add
               (sensitivity (projr (find_optimal_cut_point tie_fpr tie_tpr tie_thresholds)))
               (specificity (projr (find_optimal_cut_point tie_fpr tie_tpr tie_thresholds))))
             (py_int 1) = Fin v
         \<and> \<bar>v - y\<bar> \<le> 5 / 2 ^ 54)"
proof -
  let ?c = "projr (find_optimal_cut_point tie_fpr tie_tpr tie_thresholds)"
  have h: "find_optimal_cut_point tie_fpr tie_tpr tie_thresholds = Inr ?c"
    using tie_cut_point_value by simp
  have i: "optimal_idx ?c = 1"
    using tie_cut_point_value by simp
  have t: "tie_tpr ! optimal_idx ?c = Fin (1 / 2)" "tie_fpr ! optimal_idx ?c = Fin 0"
    unfolding i by (simp_all add: tie_tpr_def tie_fpr_def)
  have "round_double (3 / 2) = Fin (3 / 2)"
    using round_double_eqI [of "- 52" "3 / 2" "6755399441055744"] by (simp add: pow2_def)
  then have e: "exact (1 - 0)" "exact (1 / 2 + (1 - 0))" "exact (1 / 2 - 0)"
    by (simp_all add: exact_def double_one double_half)
  have b: "(0::rat) \<le> 1 / 2 \<and> (1::rat) / 2 \<le> 1 \<and> (0::rat) \<le> 0 \<and> (0::rat) \<le> 1" by simp
  note w = youden_identity_up_to_rounding [OF h t]
  from w e have "youden_identity ?c" by blast
  moreover from w b have "\<exists>y v. youden_index ?c = Fin y
      \<and> num_sub (num_add (sensitivity ?c) (specificity ?c)) (py_int 1) = Fin v
      \<and> \<bar>v - y\<bar> \<le> 5 / 2 ^ 54"
    by blast
  ultimately show ?thesis using h e by blast
qed

end
